theory Spec2Isabelle
  imports Complex_Main
begin

section \<open>Python values and their text form\<close>

text \<open>
  The recorder formats integers, optional attributes and clock readings into marker
  payloads and file names with f-strings. An f-string field \<open>{x}\<close> is \<open>str(x)\<close>:
  decimal digits for an int, \<open>None\<close> for an attribute that was never assigned.
\<close>

definition digit_char :: "nat \<Rightarrow> char" where
  "digit_char n = ''0123456789'' ! (n mod 10)"

fun str_nat :: "nat \<Rightarrow> string" where
  "str_nat n = (if n < 10 then [digit_char n] else str_nat (n div 10) @ [digit_char n])"

declare str_nat.simps [simp del]

definition str_int :: "int \<Rightarrow> string" where
  "str_int i = (if i < 0 then CHR ''-'' # str_nat (nat (- i)) else str_nat (nat i))"

text \<open>
  A frame rate is a Python number: the int of the configuration or the float the camera
  reports. The text of a float is produced by the Python runtime; the formatter takes
  it as the parameter \<open>float_repr\<close>.
\<close>

datatype number = IntN int | FloatN rat

fun number_value :: "number \<Rightarrow> rat" where
  "number_value (IntN i) = of_int i"
| "number_value (FloatN r) = r"

fun str_number :: "(rat \<Rightarrow> string) \<Rightarrow> number \<Rightarrow> string" where
  "str_number float_repr (IntN i) = str_int i"
| "str_number float_repr (FloatN r) = float_repr r"

fun str_opt :: "string option \<Rightarrow> string" where
  "str_opt None = ''None''"
| "str_opt (Some s) = s"

fun str_int_opt :: "int option \<Rightarrow> string" where
  "str_int_opt None = ''None''"
| "str_int_opt (Some i) = str_int i"

fun str_number_opt :: "(rat \<Rightarrow> string) \<Rightarrow> number option \<Rightarrow> string" where
  "str_number_opt float_repr None = ''None''"
| "str_number_opt float_repr (Some n) = str_number float_repr n"

subsection \<open>Clock readings\<close>

text \<open>
  \<open>datetime.now()\<close> is an input of the environment. \<open>strftime("%Y%m%d_%H%M%S")\<close>
  gives the coarse timestamp and \<open>isoformat()\<close> the precise one (the fraction is left
  out when the microsecond is 0).
\<close>

record datetime =
  year :: nat
  month :: nat
  day :: nat
  hour :: nat
  minute :: nat
  second :: nat
  microsecond :: nat

definition zfill :: "nat \<Rightarrow> string \<Rightarrow> string" where
  "zfill w s = replicate (w - length s) (CHR ''0'') @ s"

definition strftime_coarse :: "datetime \<Rightarrow> string" where
  "strftime_coarse d =
     zfill 4 (str_nat (year d)) @ zfill 2 (str_nat (month d)) @ zfill 2 (str_nat (day d)) @ ''_'' @
     zfill 2 (str_nat (hour d)) @ zfill 2 (str_nat (minute d)) @ zfill 2 (str_nat (second d))"

definition isoformat :: "datetime \<Rightarrow> string" where
  "isoformat d =
     zfill 4 (str_nat (year d)) @ ''-'' @ zfill 2 (str_nat (month d)) @ ''-'' @
     zfill 2 (str_nat (day d)) @ ''T'' @ zfill 2 (str_nat (hour d)) @ '':'' @
     zfill 2 (str_nat (minute d)) @ '':'' @ zfill 2 (str_nat (second d)) @
     (if microsecond d = 0 then [] else ''.'' @ zfill 6 (str_nat (microsecond d)))"

subsection \<open>Paths\<close>

text \<open>\<open>os.path.join(a, b)\<close> with the POSIX separator.\<close>

definition os_path_join :: "string \<Rightarrow> string \<Rightarrow> string" where
  "os_path_join a b =
     (if b \<noteq> [] \<and> hd b = CHR ''/'' then b
      else if a = [] \<or> last a = CHR ''/'' then a @ b
      else a @ ''/'' @ b)"

section \<open>lsl\_utils: marker payloads\<close>

text \<open>
  \<open>MarkerStreams\<close> has one outlet per modality. Each \<open>send_*_marker\<close> method builds
  the payload with an f-string and pushes it on its outlet. The functions below are the
  f-strings, piece by piece; \<open>iso_timestamp\<close> is tested for truth, so \<open>None\<close> and the
  empty string both give the short form.
\<close>

definition truthy :: "string option \<Rightarrow> bool" where
  "truthy s = (case s of None \<Rightarrow> False | Some t \<Rightarrow> t \<noteq> [])"

definition audio_start_payload ::
  "string \<Rightarrow> string option \<Rightarrow> string \<Rightarrow> int option \<Rightarrow> int option \<Rightarrow> string option \<Rightarrow> string" where
  "audio_start_payload subject_id filename timestamp channels sample_rate iso_timestamp =
     (if truthy iso_timestamp then
        ''AUDIO_START,'' @ subject_id @ '','' @ str_opt filename @ '','' @ timestamp @ '','' @
        str_int_opt channels @ '','' @ str_int_opt sample_rate @ '','' @ str_opt iso_timestamp
      else
        ''AUDIO_START,'' @ subject_id @ '','' @ str_opt filename @ '','' @ timestamp @ '','' @
        str_int_opt channels @ '','' @ str_int_opt sample_rate)"

definition audio_stop_payload :: "string option \<Rightarrow> string \<Rightarrow> string" where
  "audio_stop_payload filename timestamp =
     ''AUDIO_STOP,'' @ str_opt filename @ '','' @ timestamp"

definition video_start_payload ::
  "(rat \<Rightarrow> string) \<Rightarrow> string \<Rightarrow> string option \<Rightarrow> string \<Rightarrow> string \<Rightarrow> number option \<Rightarrow> string" where
  "video_start_payload float_repr subject_id filename timestamp iso_timestamp fps =
     ''VIDEO_START,'' @ subject_id @ '','' @ str_opt filename @ '','' @ timestamp @ '','' @
     iso_timestamp @ '','' @ str_number_opt float_repr fps"

definition video_stop_payload :: "string option \<Rightarrow> string \<Rightarrow> string" where
  "video_stop_payload filename timestamp =
     ''VIDEO_STOP,'' @ str_opt filename @ '','' @ timestamp"

text \<open>
  A call of a \<open>send_*_marker\<close> method, with its arguments in the order of the method's
  parameters. The recorders' traces hold these calls; \<open>marker_payload\<close> is the string
  the call pushes and \<open>marker_outlet\<close> the outlet it pushes on.
\<close>

datatype marker =
    AudioStart string "string option" string "int option" "int option" "string option"
  | AudioStop "string option" string
  | VideoStart string "string option" string string "number option"
  | VideoStop "string option" string

datatype outlet = AudioOutlet | VideoOutlet

fun marker_payload :: "(rat \<Rightarrow> string) \<Rightarrow> marker \<Rightarrow> string" where
  "marker_payload float_repr (AudioStart subject_id filename timestamp channels sample_rate iso_timestamp) =
     audio_start_payload subject_id filename timestamp channels sample_rate iso_timestamp"
| "marker_payload float_repr (AudioStop filename timestamp) =
     audio_stop_payload filename timestamp"
| "marker_payload float_repr (VideoStart subject_id filename timestamp iso_timestamp fps) =
     video_start_payload float_repr subject_id filename timestamp iso_timestamp fps"
| "marker_payload float_repr (VideoStop filename timestamp) =
     video_stop_payload filename timestamp"

fun marker_outlet :: "marker \<Rightarrow> outlet" where
  "marker_outlet (AudioStart _ _ _ _ _ _) = AudioOutlet"
| "marker_outlet (AudioStop _ _) = AudioOutlet"
| "marker_outlet (VideoStart _ _ _ _ _) = VideoOutlet"
| "marker_outlet (VideoStop _ _) = VideoOutlet"

text \<open>The fields of a comma-delimited record, joined and split.\<close>

fun join_comma :: "string list \<Rightarrow> string" where
  "join_comma [] = []"
| "join_comma [f] = f"
| "join_comma (f # g # fs) = f @ '','' @ join_comma (g # fs)"

fun split_comma_acc :: "string \<Rightarrow> string \<Rightarrow> string list" where
  "split_comma_acc acc [] = [rev acc]"
| "split_comma_acc acc (c # cs) =
     (if c = CHR '','' then rev acc # split_comma_acc [] cs else split_comma_acc (c # acc) cs)"

definition split_comma :: "string \<Rightarrow> string list" where
  "split_comma s = split_comma_acc [] s"

text \<open>The fields of each marker kind, in the order the interface lists them.\<close>

fun marker_fields :: "(rat \<Rightarrow> string) \<Rightarrow> marker \<Rightarrow> string list" where
  "marker_fields float_repr (AudioStart subject_id filename timestamp channels sample_rate iso_timestamp) =
     [''AUDIO_START'', subject_id, str_opt filename, timestamp, str_int_opt channels,
      str_int_opt sample_rate] @ (if truthy iso_timestamp then [str_opt iso_timestamp] else [])"
| "marker_fields float_repr (AudioStop filename timestamp) =
     [''AUDIO_STOP'', str_opt filename, timestamp]"
| "marker_fields float_repr (VideoStart subject_id filename timestamp iso_timestamp fps) =
     [''VIDEO_START'', subject_id, str_opt filename, timestamp, iso_timestamp,
      str_number_opt float_repr fps]"
| "marker_fields float_repr (VideoStop filename timestamp) =
     [''VIDEO_STOP'', str_opt filename, timestamp]"

section \<open>Results and effects\<close>

text \<open>
  Every public method returns \<open>True\<close>, returns \<open>False\<close> after logging, or lets an
  exception escape. \<open>Failure\<close> carries the name the design gives to the logged
  condition.
\<close>

datatype error =
    AlreadyRecording
  | DeviceNotFound
  | DeviceOpenError
  | InternalError
  | NotArmed
  | NotRecording

datatype result = Success | Failure error | Raised

fun succeeded :: "result \<Rightarrow> bool" where
  "succeeded Success = True"
| "succeeded _ = False"

text \<open>
  What a method does to the world outside the recorder object, in the order it does it:
  marker calls, PortAudio and OpenCV handle operations, the WAV file written, threads
  started and joined (with the timeout of the join, in seconds). A call that raises
  leaves no event.
\<close>

datatype thread_kind = RecordingThread | PreviewThread

datatype event =
    Send marker
  | PaInit
  | PaTerminate
  | StreamOpen int int int int int bool
  | StreamStart
  | StreamStop
  | StreamClose
  | WavWrite string int int int "nat list"
  | CapOpen int
  | CapRelease
  | WriterOpen string number
  | WriterWrite
  | WriterRelease
  | ThreadStart thread_kind
  | ThreadJoin thread_kind nat

fun markers_of :: "event list \<Rightarrow> marker list" where
  "markers_of [] = []"
| "markers_of (Send m # es) = m # markers_of es"
| "markers_of (_ # es) = markers_of es"

definition dict_get :: "'a \<Rightarrow> 'a option \<Rightarrow> 'a" where
  "dict_get d v = (case v of None \<Rightarrow> d | Some x \<Rightarrow> x)"

text \<open>Python's \<open>a in b\<close> on strings: \<open>a\<close> occurs in \<open>b\<close> as a contiguous piece.\<close>

fun starts_with :: "string \<Rightarrow> string \<Rightarrow> bool" where
  "starts_with [] s = True"
| "starts_with (c # cs) [] = False"
| "starts_with (c # cs) (d # ds) = (c = d \<and> starts_with cs ds)"

fun str_contains :: "string \<Rightarrow> string \<Rightarrow> bool" where
  "str_contains a [] = (a = [])"
| "str_contains a (d # ds) = (starts_with a (d # ds) \<or> str_contains a ds)"

section \<open>audio\_recorder\<close>

subsection \<open>PortAudio as the recorder sees it\<close>

text \<open>
  Modelled from the PyAudio library, which is not part of the repository: the sample
  format constants, the device table, and the life cycle of its two handles. A
  \<open>PyAudio\<close> instance is live until \<open>terminate()\<close>, which also closes the streams it
  opened. A stream is opened stopped or active, \<open>start_stream()\<close> on an active stream
  does nothing and on a closed stream raises.
\<close>

definition paFloat32 :: int where "paFloat32 = 1"
definition paInt32 :: int where "paInt32 = 2"
definition paInt24 :: int where "paInt24 = 4"
definition paInt16 :: int where "paInt16 = 8"
definition paInt8 :: int where "paInt8 = 16"
definition paUInt8 :: int where "paUInt8 = 32"
definition paCustomFormat :: int where "paCustomFormat = 65536"

text \<open>
  \<open>getattr(pyaudio, format_name)\<close> for the names of the sample formats; \<open>None\<close>
  stands for the AttributeError of a name the module does not have.
\<close>

definition pyaudio_getattr :: "string \<Rightarrow> int option" where
  "pyaudio_getattr format_name =
     map_of [(''paFloat32'', paFloat32), (''paInt32'', paInt32), (''paInt24'', paInt24),
             (''paInt16'', paInt16), (''paInt8'', paInt8), (''paUInt8'', paUInt8),
             (''paCustomFormat'', paCustomFormat)] format_name"

datatype pyaudio = Live | Terminated

datatype stream = Stopped | Active | Closed

record device_info =
  dev_name :: string
  hostApi :: int
  maxInputChannels :: int
  defaultSampleRate :: int

subsection \<open>Configuration and state\<close>

text \<open>
  The \<open>audio_settings\<close> dictionary: a key that may be absent is an option, read with
  \<open>dict_get\<close> where the source calls \<open>.get(key, default)\<close>.
\<close>

record fallback_settings =
  fb_channels :: "int option"
  fb_sample_rate :: "int option"
  fb_chunk_duration :: "rat option"
  fb_format :: "string option"

record audio_config =
  ac_device_name :: "string option"
  ac_host_api :: "int list option"
  ac_use_device_defaults :: "bool option"
  ac_fallback_settings :: "fallback_settings option"
  ac_channels :: "int option"
  ac_sample_rate :: "int option"
  ac_chunk_duration :: "rat option"
  ac_format :: "string option"
  ac_filename_suffix :: "string option"

text \<open>
  The attributes of \<open>AudioRecorder\<close>. \<open>a_recording\<close> is the attribute \<open>recording\<close>
  and \<open>a_config\<close> the attribute \<open>config\<close> (the video recorder has attributes of the
  same names).
\<close>

record audio_recorder =
  a_config :: audio_config
  a_recording :: bool
  audio_stream :: "stream option"
  audio_p :: "pyaudio option"
  audio_frames :: "nat list list"
  audio_filename :: "string option"
  actual_channels :: "int option"
  actual_sample_rate :: "int option"
  actual_sample_width :: "int option"

definition audio_init :: "audio_config \<Rightarrow> audio_recorder" where
  "audio_init config =
     \<lparr> a_config = config, a_recording = False, audio_stream = None, audio_p = None,
       audio_frames = [], audio_filename = None, actual_channels = None,
       actual_sample_rate = None, actual_sample_width = None \<rparr>"

text \<open>
  What the environment decides during one call on the audio recorder: the device table,
  which library call raises, and the clock (\<open>ae_clock env k\<close> is the \<open>k\<close>-th reading of
  \<open>datetime.now()\<close> in the call).
\<close>

datatype audio_stop_stage = AtStopStream | AtClose | AtTerminate | AtWave

record audio_env =
  ae_devices :: "device_info list"
  ae_open_raises :: bool
  ae_makedirs_raises :: bool
  ae_start_stream_raises :: bool
  ae_stop_raises :: "audio_stop_stage option"
  ae_clock :: "nat \<Rightarrow> datetime"

subsection \<open>find\_device\<close>

fun first_match :: "nat \<Rightarrow> device_info list \<Rightarrow> string \<Rightarrow> int list \<Rightarrow> nat option" where
  "first_match i [] device_name host_api = None"
| "first_match i (dev # devs) device_name host_api =
     (if str_contains device_name (dev_name dev) \<and> hostApi dev \<in> set host_api
         \<and> maxInputChannels dev > 0
      then Some i else first_match (Suc i) devs device_name host_api)"

text \<open>
  Returns the PyAudio instance and the index, or \<open>(None, None)\<close> after terminating the
  instance it created.
\<close>

definition find_device ::
  "audio_env \<Rightarrow> string \<Rightarrow> int list \<Rightarrow> pyaudio option \<times> int option \<times> event list" where
  "find_device env device_name host_api =
     (case first_match 0 (ae_devices env) device_name host_api of
        None \<Rightarrow> (None, None, [PaInit, PaTerminate])
      | Some i \<Rightarrow> (Some Live, Some (int i), [PaInit]))"

text \<open>\<open>get_device_info_by_index\<close> raises on an index outside the table.\<close>

definition get_device_info_by_index :: "audio_env \<Rightarrow> int \<Rightarrow> device_info option" where
  "get_device_info_by_index env i =
     (if 0 \<le> i \<and> nat i < length (ae_devices env) then Some (ae_devices env ! nat i) else None)"

subsection \<open>start\_recording\<close>

text \<open>\<open>int(x)\<close> on a number truncates towards zero.\<close>

definition py_int :: "rat \<Rightarrow> int" where
  "py_int x = (if 0 \<le> x then \<lfloor>x\<rfloor> else \<lceil>x\<rceil>)"

definition format_map :: "(int \<times> int) list" where
  "format_map = [(paInt16, 2), (paInt24, 3), (paInt32, 4), (paFloat32, 4)]"

definition sample_width_of :: "int \<Rightarrow> int" where
  "sample_width_of format_value = dict_get 2 (map_of format_map format_value)"

text \<open>
  The negotiation of lines 162-190: the channel count, the sample rate, the chunk
  duration and the format value; the format is \<open>None\<close> when \<open>getattr\<close> raises, which
  happens after the channel count and the rate were stored.
\<close>

definition negotiate ::
  "audio_config \<Rightarrow> device_info \<Rightarrow> int \<times> int \<times> rat \<times> int option" where
  "negotiate config info =
     (let fallback = dict_get \<lparr> fb_channels = None, fb_sample_rate = None,
                                fb_chunk_duration = None, fb_format = None \<rparr>
                       (ac_fallback_settings config)
      in if dict_get False (ac_use_device_defaults config) then
           (min (maxInputChannels info) 2, defaultSampleRate info,
            dict_get (1 / 10) (fb_chunk_duration fallback), Some paInt16)
         else
           (min (dict_get (dict_get 1 (fb_channels fallback)) (ac_channels config))
                (maxInputChannels info),
            dict_get (dict_get 44100 (fb_sample_rate fallback)) (ac_sample_rate config),
            dict_get (dict_get (1 / 10) (fb_chunk_duration fallback)) (ac_chunk_duration config),
            pyaudio_getattr
              (dict_get (dict_get ''paInt16'' (fb_format fallback)) (ac_format config))))"

text \<open>
  The guarded section (lines 204-259), entered with the instance, the device and the
  negotiated values. An exception ends in the handler, which terminates the instance
  and returns \<open>False\<close>.
\<close>

definition audio_open_section ::
  "audio_env \<Rightarrow> string \<Rightarrow> string \<Rightarrow> int \<Rightarrow> bool \<Rightarrow> string option \<Rightarrow> int \<Rightarrow> int \<Rightarrow>
   audio_recorder \<Rightarrow> event list \<Rightarrow> result \<times> audio_recorder \<times> event list" where
  "audio_open_section env subject_id destination device_idx pre_initialize filename
       format_value chunk s evs =
     (if ae_open_raises env then
        (Failure DeviceOpenError, s\<lparr>audio_p := Some Terminated\<rparr>, evs @ [PaTerminate])
      else
        let s1 = s\<lparr>audio_stream := Some (if pre_initialize then Stopped else Active),
                   audio_frames := []\<rparr>;
            evs1 = evs @ [StreamOpen format_value (the (actual_channels s))
                            (the (actual_sample_rate s)) chunk device_idx (\<not> pre_initialize)]
        in if ae_makedirs_raises env then
             (Failure InternalError,
              s1\<lparr>audio_p := Some Terminated, audio_stream := Some Closed\<rparr>,
              evs1 @ [PaTerminate])
           else
             let s2 = s1\<lparr>audio_filename :=
                        (if truthy filename then filename
                         else Some (os_path_join destination
                                (subject_id @ dict_get ''_audio'' (ac_filename_suffix (a_config s))
                                 @ ''_'' @ strftime_coarse (ae_clock env 0) @ ''.wav'')))\<rparr>
             in if \<not> pre_initialize then
                  (Success, s2\<lparr>a_recording := True\<rparr>,
                   evs1 @ [Send (AudioStart subject_id (audio_filename s2)
                                  (strftime_coarse (ae_clock env (if truthy filename then 0 else 1)))
                                  (actual_channels s2) (actual_sample_rate s2) None)])
                else (Success, s2, evs1))"

definition start_recording_audio ::
  "audio_env \<Rightarrow> string \<Rightarrow> string \<Rightarrow> int option \<Rightarrow> bool \<Rightarrow> string option \<Rightarrow>
   audio_recorder \<Rightarrow> result \<times> audio_recorder \<times> event list" where
  "start_recording_audio env subject_id destination device_index pre_initialize filename s =
     (if a_recording s then (Failure AlreadyRecording, s, [])
      else
        let (p, device_idx, evs) =
              (case device_index of
                 Some i \<Rightarrow> (Some Live, Some i, [PaInit])
               | None \<Rightarrow> find_device env (dict_get ''Default'' (ac_device_name (a_config s)))
                           (dict_get [0, 1, 2, 3] (ac_host_api (a_config s))));
            s1 = s\<lparr>audio_p := p\<rparr>
        in if p = None \<or> device_idx = None then (Failure DeviceNotFound, s1, evs)
           else
             case get_device_info_by_index env (the device_idx) of
               None \<Rightarrow> (Raised, s1, evs)
             | Some info \<Rightarrow>
                 let (channels, rate, chunk_duration, fmt) = negotiate (a_config s) info;
                     s2 = s1\<lparr>actual_channels := Some channels, actual_sample_rate := Some rate\<rparr>
                 in (case fmt of
                       None \<Rightarrow> (Raised, s2, evs)
                     | Some format_value \<Rightarrow>
                         audio_open_section env subject_id destination (the device_idx)
                           pre_initialize filename format_value
                           (py_int (of_int rate * chunk_duration))
                           (s2\<lparr>actual_sample_width := Some (sample_width_of format_value)\<rparr>)
                           evs))"

subsection \<open>start\_pre\_initialized, stop\_recording, audio\_callback\<close>

definition start_pre_initialized_audio ::
  "audio_env \<Rightarrow> string \<Rightarrow> audio_recorder \<Rightarrow> result \<times> audio_recorder \<times> event list" where
  "start_pre_initialized_audio env subject_id s =
     (case audio_stream s of
        None \<Rightarrow> (Failure NotArmed, s, [])
      | Some st \<Rightarrow>
          if st = Closed \<or> (st = Stopped \<and> ae_start_stream_raises env) then (Raised, s, [])
          else
            (Success, s\<lparr>audio_stream := Some Active, a_recording := True\<rparr>,
             (if st = Stopped then [StreamStart] else []) @
             [Send (AudioStart subject_id (audio_filename s) (strftime_coarse (ae_clock env 0))
                     (actual_channels s) (actual_sample_rate s)
                     (Some (isoformat (ae_clock env 0))))]))"

text \<open>
  The guarded section of \<open>stop_recording\<close> (lines 306-326), one library call after the
  other; the first one that raises (by the environment, or because the attribute it
  needs is \<open>None\<close>) ends in the handler: \<open>recording\<close> is cleared and \<open>False\<close> returned.
\<close>

definition stop_recording_audio ::
  "audio_env \<Rightarrow> audio_recorder \<Rightarrow> result \<times> audio_recorder \<times> event list" where
  "stop_recording_audio env s =
     (if \<not> a_recording s then (Failure NotRecording, s, [])
      else if audio_stream s = None \<or> ae_stop_raises env = Some AtStopStream then
        (Failure InternalError, s\<lparr>a_recording := False\<rparr>, [])
      else if ae_stop_raises env = Some AtClose then
        (Failure InternalError, s\<lparr>audio_stream := Some Stopped, a_recording := False\<rparr>,
         [StreamStop])
      else if audio_p s = None \<or> ae_stop_raises env = Some AtTerminate then
        (Failure InternalError, s\<lparr>audio_stream := Some Closed, a_recording := False\<rparr>,
         [StreamStop, StreamClose])
      else if audio_filename s = None \<or> actual_channels s = None
              \<or> actual_sample_width s = None \<or> actual_sample_rate s = None
              \<or> ae_stop_raises env = Some AtWave then
        (Failure InternalError,
         s\<lparr>audio_stream := Some Closed, audio_p := Some Terminated, a_recording := False\<rparr>,
         [StreamStop, StreamClose, PaTerminate])
      else
        (Success,
         s\<lparr>audio_stream := Some Closed, audio_p := Some Terminated, a_recording := False\<rparr>,
         [StreamStop, StreamClose, PaTerminate,
          WavWrite (the (audio_filename s)) (the (actual_channels s))
            (the (actual_sample_width s)) (the (actual_sample_rate s)) (concat (audio_frames s)),
          Send (AudioStop (audio_filename s) (strftime_coarse (ae_clock env 0)))]))"

definition audio_callback :: "nat list \<Rightarrow> audio_recorder \<Rightarrow> audio_recorder" where
  "audio_callback in_data s =
     (if a_recording s then s\<lparr>audio_frames := audio_frames s @ [in_data]\<rparr> else s)"

section \<open>video\_recorder\<close>

subsection \<open>Handles, configuration and state\<close>

text \<open>
  A \<open>cv2.VideoCapture\<close> object with the answer of \<open>isOpened()\<close>; \<open>release()\<close> closes
  it. A \<open>cv2.VideoWriter\<close> and a thread object carry nothing the recorder reads.
\<close>

datatype capture = Capture bool

fun isOpened :: "capture \<Rightarrow> bool" where
  "isOpened (Capture b) = b"

datatype writer = Writer

datatype thread = Thread

record video_config =
  vc_width :: int
  vc_height :: int
  vc_fps :: number
  vc_codec :: string
  vc_filename_suffix :: "string option"
  vc_show_timestamp :: "bool option"

text \<open>
  The attributes of \<open>VideoRecorder\<close>. \<open>v_recording\<close> is the attribute \<open>recording\<close>
  and \<open>v_config\<close> the attribute \<open>config\<close>. \<open>video_thread\<close> is \<open>None\<close> until the
  attribute exists. \<open>preview_device_index\<close> is the attribute the control surface may
  set. The frame kept in \<open>latest_preview_frame\<close> is image data, written by the two
  loops only, and is left out.
\<close>

record video_recorder =
  v_config :: video_config
  v_recording :: bool
  thread_active :: bool
  video_capture :: "capture option"
  video_writer :: "writer option"
  video_filename :: "string option"
  actual_fps :: "number option"
  show_preview :: bool
  preview_thread :: "thread option"
  preview_active :: bool
  video_thread :: "thread option"
  video_start_time :: "datetime option"
  exact_video_start :: "datetime option"
  preview_device_index :: "int option"

definition video_init :: "video_config \<Rightarrow> video_recorder" where
  "video_init config =
     \<lparr> v_config = config, v_recording = False, thread_active = False, video_capture = None,
       video_writer = None, video_filename = None, actual_fps = None, show_preview = False,
       preview_thread = None, preview_active = False, video_thread = None,
       video_start_time = None, exact_video_start = None, preview_device_index = None \<rparr>"

text \<open>
  What the environment decides during one call on the video recorder: whether a new
  capture comes up opened, the frame rate the camera reports, the results of the
  successive \<open>read()\<close> calls of the warm-up, which call raises, whether a joined thread
  is still alive after the timeout, and the clock.
\<close>

datatype video_start_stage = AtMakedirs | AtWriter | AtWarmUp

datatype video_stop_stage = AtWriterRelease | AtCaptureRelease

record video_env =
  ve_camera_opens :: bool
  ve_reported_fps :: rat
  ve_reads :: "bool list"
  ve_start_raises :: "video_start_stage option"
  ve_stop_raises :: "video_stop_stage option"
  ve_thread_alive :: bool
  ve_clock :: "nat \<Rightarrow> datetime"

subsection \<open>start\_recording\<close>

text \<open>The warm-up loop: up to \<open>n\<close> reads, stopping at the first frame.\<close>

fun warm_up :: "nat \<Rightarrow> bool list \<Rightarrow> bool" where
  "warm_up 0 reads = False"
| "warm_up (Suc n) [] = False"
| "warm_up (Suc n) (ret # reads) = (if ret then True else warm_up n reads)"

text \<open>The handler of lines 199-203: the capture, if there is one, is released.\<close>

definition video_start_handler ::
  "video_recorder \<Rightarrow> event list \<Rightarrow> result \<times> video_recorder \<times> event list" where
  "video_start_handler s evs =
     (case video_capture s of
        None \<Rightarrow> (Failure InternalError, s, evs)
      | Some c \<Rightarrow> (Failure InternalError, s\<lparr>video_capture := Some (Capture False)\<rparr>,
                   evs @ [CapRelease]))"

text \<open>
  Lines 136-197, entered once the capture is open and the frame rate and the file name
  are stored: the writer, the warm-up, and unless pre-initializing the thread and the
  start marker.
\<close>

definition video_writer_section ::
  "video_env \<Rightarrow> string \<Rightarrow> bool \<Rightarrow> bool \<Rightarrow> video_recorder \<Rightarrow> event list \<Rightarrow>
   result \<times> video_recorder \<times> event list" where
  "video_writer_section env subject_id pre_initialize named s evs =
     (let k = (if named then 0 else 1);
          s1 = s\<lparr>video_start_time := Some (ve_clock env k)\<rparr>
      in if length (vc_codec (v_config s)) \<noteq> 4 \<or> ve_start_raises env = Some AtWriter then
           video_start_handler s1 evs
         else
           let s2 = s1\<lparr>video_writer := Some Writer\<rparr>;
               evs2 = evs @ [WriterOpen (the (video_filename s)) (the (actual_fps s))]
           in if ve_start_raises env = Some AtWarmUp then video_start_handler s2 evs2
              else
                let evs3 = evs2 @ (if warm_up 10 (ve_reads env) \<and> \<not> pre_initialize
                                   then [WriterWrite] else [])
                in if \<not> pre_initialize then
                     (Success,
                      s2\<lparr>v_recording := True, thread_active := True, video_thread := Some Thread,
                         exact_video_start := Some (ve_clock env (k + 1))\<rparr>,
                      evs3 @ [ThreadStart RecordingThread,
                              Send (VideoStart subject_id (video_filename s2)
                                     (strftime_coarse (ve_clock env (k + 2)))
                                     (isoformat (ve_clock env (k + 1))) (actual_fps s2))])
                   else (Success, s2, evs3))"

definition start_recording_video ::
  "video_env \<Rightarrow> string \<Rightarrow> string \<Rightarrow> int option \<Rightarrow> bool \<Rightarrow> string option \<Rightarrow>
   video_recorder \<Rightarrow> result \<times> video_recorder \<times> event list" where
  "start_recording_video env subject_id destination device_index pre_initialize filename s =
     (if v_recording s \<and> \<not> pre_initialize then (Failure AlreadyRecording, s, [])
      else if ve_start_raises env = Some AtMakedirs then video_start_handler s []
      else
        let camera_index = (case device_index of None \<Rightarrow> 0 | Some i \<Rightarrow> i);
            reuse = (case video_capture s of None \<Rightarrow> False | Some c \<Rightarrow> isOpened c);
            c = (if reuse then the (video_capture s) else Capture (ve_camera_opens env));
            evs = (if reuse then [] else [CapOpen camera_index]);
            s1 = s\<lparr>video_capture := Some c\<rparr>
        in if \<not> isOpened c then (Failure DeviceOpenError, s1, evs)
           else
             let reported = ve_reported_fps env;
                 s2 = s1\<lparr>actual_fps :=
                          Some (if 0 < reported \<and> reported < number_value (vc_fps (v_config s))
                                then FloatN reported else vc_fps (v_config s))\<rparr>;
                 s3 = s2\<lparr>video_filename :=
                          (if truthy filename then filename
                           else Some (os_path_join destination
                                  (subject_id @ dict_get ''_video'' (vc_filename_suffix (v_config s))
                                   @ ''_'' @ strftime_coarse (ve_clock env 0) @ ''.mp4'')))\<rparr>
             in video_writer_section env subject_id pre_initialize (truthy filename) s3 evs)"

subsection \<open>start\_pre\_initialized and stop\_recording\<close>

definition start_pre_initialized_video ::
  "video_env \<Rightarrow> string \<Rightarrow> video_recorder \<Rightarrow> result \<times> video_recorder \<times> event list" where
  "start_pre_initialized_video env subject_id s =
     (case video_capture s of
        None \<Rightarrow> (Failure NotArmed, s, [])
      | Some c \<Rightarrow>
          (Success, s\<lparr>v_recording := True, thread_active := True, video_thread := Some Thread\<rparr>,
           [ThreadStart RecordingThread,
            Send (VideoStart subject_id (video_filename s) (strftime_coarse (ve_clock env 0))
                    (isoformat (ve_clock env 0)) (actual_fps s))]))"

text \<open>
  \<open>stop_recording\<close>: both flags are cleared, the thread is joined for at most 5
  seconds (a thread still alive after that is only logged), the writer is released, the
  capture is released unless the preview is shown, and the stop marker is sent. A
  release that raises ends in the handler, which clears \<open>recording\<close> and returns
  \<open>False\<close>.
\<close>

definition stop_recording_video ::
  "video_env \<Rightarrow> video_recorder \<Rightarrow> result \<times> video_recorder \<times> event list" where
  "stop_recording_video env s =
     (if \<not> v_recording s then (Failure NotRecording, s, [])
      else
        let s1 = s\<lparr>thread_active := False, v_recording := False\<rparr>;
            evs1 = (if video_thread s \<noteq> None then [ThreadJoin RecordingThread 5] else [])
        in if video_writer s \<noteq> None \<and> ve_stop_raises env = Some AtWriterRelease then
             (Failure InternalError, s1, evs1)
           else
             let s2 = s1\<lparr>video_writer := None\<rparr>;
                 evs2 = evs1 @ (if video_writer s \<noteq> None then [WriterRelease] else [])
             in if video_capture s \<noteq> None \<and> \<not> show_preview s then
                  (if ve_stop_raises env = Some AtCaptureRelease then
                     (Failure InternalError, s2, evs2)
                   else
                     (Success, s2\<lparr>video_capture := None\<rparr>,
                      evs2 @ [CapRelease,
                              Send (VideoStop (video_filename s)
                                      (strftime_coarse (ve_clock env 0)))]))
                else
                  (Success, s2,
                   evs2 @ [Send (VideoStop (video_filename s)
                                   (strftime_coarse (ve_clock env 0)))]))"

subsection \<open>Preview\<close>

text \<open>
  \<open>start_preview\<close> opens the device only when the recorder holds no capture;
  \<open>stop_preview\<close> releases it only when the recorder is not recording. The index read
  with \<open>getattr(self, 'preview_device_index', 0)\<close> falls back to the first device,
  which \<open>get_available_devices\<close> always lists as index 0.
\<close>

definition start_preview ::
  "video_env \<Rightarrow> video_recorder \<Rightarrow> result \<times> video_recorder \<times> event list" where
  "start_preview env s =
     (if preview_active s then (Success, s, [])
      else
        let fresh = (video_capture s = None);
            s1 = (if fresh then s\<lparr>video_capture := Some (Capture (ve_camera_opens env))\<rparr> else s);
            evs = (if fresh then [CapOpen (dict_get 0 (preview_device_index s))] else [])
        in if fresh \<and> \<not> ve_camera_opens env then (Failure DeviceOpenError, s1, evs)
           else
             (Success,
              s1\<lparr>show_preview := True, preview_active := True, preview_thread := Some Thread\<rparr>,
              evs @ [ThreadStart PreviewThread]))"

definition stop_preview ::
  "video_env \<Rightarrow> video_recorder \<Rightarrow> result \<times> video_recorder \<times> event list" where
  "stop_preview env s =
     (if \<not> preview_active s then (Success, s, [])
      else
        let s1 = s\<lparr>show_preview := False, preview_active := False\<rparr>;
            evs = (if preview_thread s \<noteq> None \<and> ve_thread_alive env
                   then [ThreadJoin PreviewThread 2] else [])
        in if \<not> v_recording s \<and> video_capture s \<noteq> None then
             (Success, s1\<lparr>video_capture := None\<rparr>, evs @ [CapRelease])
           else (Success, s1, evs))"

definition toggle_preview ::
  "video_env \<Rightarrow> video_recorder \<Rightarrow> bool \<times> video_recorder \<times> event list" where
  "toggle_preview env s =
     (let (r, s', evs) = (if show_preview s then stop_preview env s else start_preview env s)
      in (show_preview s', s', evs))"

section \<open>recorder\_core\<close>

text \<open>
  \<open>RecorderCore\<close> holds the two recorders and the two file name suffixes of the
  top-level configuration. \<open>recording_audio\<close> and \<open>recording_video\<close> are its
  properties of the same names.
\<close>

record core_config =
  audio_filename_suffix :: string
  video_filename_suffix :: string

record recorder_core =
  config :: core_config
  audio_recorder :: audio_recorder
  video_recorder :: video_recorder

definition core_init :: "core_config \<Rightarrow> audio_config \<Rightarrow> video_config \<Rightarrow> recorder_core" where
  "core_init c ac vc =
     \<lparr> config = c, audio_recorder = audio_init ac, video_recorder = video_init vc \<rparr>"

definition recording_audio :: "recorder_core \<Rightarrow> bool" where
  "recording_audio core = a_recording (audio_recorder core)"

definition recording_video :: "recorder_core \<Rightarrow> bool" where
  "recording_video core = v_recording (video_recorder core)"

text \<open>The synchronized file names of lines 231-239, from the one common timestamp.\<close>

definition sync_audio_filename :: "core_config \<Rightarrow> string \<Rightarrow> string \<Rightarrow> string \<Rightarrow> string" where
  "sync_audio_filename c subject_id destination common_timestamp =
     os_path_join destination
       (subject_id @ audio_filename_suffix c @ ''_'' @ common_timestamp @ ''.wav'')"

definition sync_video_filename :: "core_config \<Rightarrow> string \<Rightarrow> string \<Rightarrow> string \<Rightarrow> string" where
  "sync_video_filename c subject_id destination common_timestamp =
     os_path_join destination
       (subject_id @ video_filename_suffix c @ ''_'' @ common_timestamp @ ''.mp4'')"

text \<open>
  The environment of one \<open>start_both_recordings\<close> call: the clock reading of the
  common timestamp, whether \<open>os.makedirs\<close> raises, and the environment of each of the
  four recorder calls.
\<close>

record both_env =
  be_now :: datetime
  be_makedirs_raises :: bool
  be_audio_arm :: audio_env
  be_video_arm :: video_env
  be_audio_go :: audio_env
  be_video_go :: video_env

text \<open>
  \<open>start_both_recordings\<close>. The two pre-initializing calls are made and their return
  values dropped (lines 246-260); the two \<open>start_pre_initialized\<close> calls follow, and
  the method returns \<open>True\<close> exactly when both of these returned \<open>True\<close>. An exception
  of any call ends in the handler of line 275, which returns \<open>False\<close>. The result also
  gives the return values of the two pre-initializing calls, which the source drops.
\<close>

definition start_both_recordings ::
  "both_env \<Rightarrow> string \<Rightarrow> string \<Rightarrow> int option \<Rightarrow> int option \<Rightarrow> recorder_core \<Rightarrow>
   result \<times> recorder_core \<times> event list" where
  "start_both_recordings env subject_id destination audio_device_index video_device_index core =
     (if recording_audio core \<or> recording_video core then (Failure AlreadyRecording, core, [])
      else if be_makedirs_raises env then (Failure InternalError, core, [])
      else
        let common_timestamp = strftime_coarse (be_now env);
            (ra, a1, ea) = start_recording_audio (be_audio_arm env) subject_id destination
                             audio_device_index True
                             (Some (sync_audio_filename (config core) subject_id destination
                                      common_timestamp))
                             (audio_recorder core);
            core1 = core\<lparr>audio_recorder := a1\<rparr>
        in if ra = Raised then (Failure InternalError, core1, ea)
           else
             let (rv, v1, ev) = start_recording_video (be_video_arm env) subject_id destination
                                  video_device_index True
                                  (Some (sync_video_filename (config core) subject_id destination
                                           common_timestamp))
                                  (video_recorder core);
                 core2 = core1\<lparr>video_recorder := v1\<rparr>
             in if rv = Raised then (Failure InternalError, core2, ea @ ev)
                else
                  let (audio_success, a2, ea2) =
                        start_pre_initialized_audio (be_audio_go env) subject_id a1;
                      core3 = core2\<lparr>audio_recorder := a2\<rparr>
                  in if audio_success = Raised then (Failure InternalError, core3, ea @ ev @ ea2)
                     else
                       let (video_success, v2, ev2) =
                             start_pre_initialized_video (be_video_go env) subject_id v1;
                           core4 = core3\<lparr>video_recorder := v2\<rparr>
                       in if video_success = Raised then
                            (Failure InternalError, core4, ea @ ev @ ea2 @ ev2)
                          else if succeeded audio_success \<and> succeeded video_success then
                            (Success, core4, ea @ ev @ ea2 @ ev2)
                          else (Failure NotArmed, core4, ea @ ev @ ea2 @ ev2))"

text \<open>
  The return values of the two pre-initializing calls inside \<open>start_both_recordings\<close>
  (the arm results), for stating what the method does with them.
\<close>

definition audio_arm_result ::
  "both_env \<Rightarrow> string \<Rightarrow> string \<Rightarrow> int option \<Rightarrow> recorder_core \<Rightarrow> result" where
  "audio_arm_result env subject_id destination audio_device_index core =
     fst (start_recording_audio (be_audio_arm env) subject_id destination audio_device_index True
            (Some (sync_audio_filename (config core) subject_id destination
                     (strftime_coarse (be_now env))))
            (audio_recorder core))"

definition video_arm_result ::
  "both_env \<Rightarrow> string \<Rightarrow> string \<Rightarrow> int option \<Rightarrow> recorder_core \<Rightarrow> result" where
  "video_arm_result env subject_id destination video_device_index core =
     fst (start_recording_video (be_video_arm env) subject_id destination video_device_index True
            (Some (sync_video_filename (config core) subject_id destination
                     (strftime_coarse (be_now env))))
            (video_recorder core))"

text \<open>
  \<open>stop_both_recordings\<close>: each recorder is stopped if it is recording, the video one
  also after the audio one failed. An exception does not escape \<open>stop_recording\<close>.
\<close>

definition stop_both_recordings ::
  "audio_env \<Rightarrow> video_env \<Rightarrow> recorder_core \<Rightarrow> bool \<times> recorder_core \<times> event list" where
  "stop_both_recordings aenv venv core =
     (let (success1, core1, evs1) =
            (if recording_audio core then
               (let (r, a, evs) = stop_recording_audio aenv (audio_recorder core)
                in (succeeded r, core\<lparr>audio_recorder := a\<rparr>, evs))
             else (True, core, []));
          (success2, core2, evs2) =
            (if recording_video core1 then
               (let (r, v, evs) = stop_recording_video venv (video_recorder core1)
                in (success1 \<and> succeeded r, core1\<lparr>video_recorder := v\<rparr>, evs))
             else (success1, core1, []))
      in (success2, core2, evs1 @ evs2))"

section \<open>Sequences of public operations on one session\<close>

text \<open>
  A call of a public method with its arguments and the environment of the call. A run
  applies the calls in order to the recorder and collects the events; a call that
  raises leaves the recorder as it was at the raise, and the run goes on (the caller
  may catch the exception).
\<close>

datatype audio_op =
    AStartRecording audio_env string string "int option" bool "string option"
  | AStartPreInitialized audio_env string
  | AStopRecording audio_env
  | ACallback "nat list"

fun audio_step :: "audio_op \<Rightarrow> audio_recorder \<Rightarrow> audio_recorder \<times> event list" where
  "audio_step (AStartRecording env subject_id destination device_index pre_initialize filename) s =
     snd (start_recording_audio env subject_id destination device_index pre_initialize filename s)"
| "audio_step (AStartPreInitialized env subject_id) s =
     snd (start_pre_initialized_audio env subject_id s)"
| "audio_step (AStopRecording env) s = snd (stop_recording_audio env s)"
| "audio_step (ACallback in_data) s = (audio_callback in_data s, [])"

fun audio_run :: "audio_op list \<Rightarrow> audio_recorder \<Rightarrow> audio_recorder \<times> event list" where
  "audio_run [] s = (s, [])"
| "audio_run (op # ops) s =
     (let (s1, evs1) = audio_step op s; (s2, evs2) = audio_run ops s1 in (s2, evs1 @ evs2))"

datatype video_op =
    VStartRecording video_env string string "int option" bool "string option"
  | VStartPreInitialized video_env string
  | VStopRecording video_env
  | VStartPreview video_env
  | VStopPreview video_env
  | VTogglePreview video_env

fun video_step :: "video_op \<Rightarrow> video_recorder \<Rightarrow> video_recorder \<times> event list" where
  "video_step (VStartRecording env subject_id destination device_index pre_initialize filename) s =
     snd (start_recording_video env subject_id destination device_index pre_initialize filename s)"
| "video_step (VStartPreInitialized env subject_id) s =
     snd (start_pre_initialized_video env subject_id s)"
| "video_step (VStopRecording env) s = snd (stop_recording_video env s)"
| "video_step (VStartPreview env) s = snd (start_preview env s)"
| "video_step (VStopPreview env) s = snd (stop_preview env s)"
| "video_step (VTogglePreview env) s = snd (toggle_preview env s)"

fun video_run :: "video_op list \<Rightarrow> video_recorder \<Rightarrow> video_recorder \<times> event list" where
  "video_run [] s = (s, [])"
| "video_run (op # ops) s =
     (let (s1, evs1) = video_step op s; (s2, evs2) = video_run ops s1 in (s2, evs1 @ evs2))"

text \<open>
  Start and stop markers, matched by file name: reading the markers in order, every
  stop marker uses up one earlier start marker of the same file name that no stop
  marker has used before. \<open>pending\<close> holds the file names of the start markers not yet
  used.
\<close>

fun is_start :: "marker \<Rightarrow> bool" where
  "is_start (AudioStart _ _ _ _ _ _) = True"
| "is_start (VideoStart _ _ _ _ _) = True"
| "is_start _ = False"

fun marker_filename :: "marker \<Rightarrow> string option" where
  "marker_filename (AudioStart _ filename _ _ _ _) = filename"
| "marker_filename (AudioStop filename _) = filename"
| "marker_filename (VideoStart _ filename _ _ _) = filename"
| "marker_filename (VideoStop filename _) = filename"

fun stops_matched :: "string option list \<Rightarrow> marker list \<Rightarrow> bool" where
  "stops_matched pending [] = True"
| "stops_matched pending (m # ms) =
     (if is_start m then stops_matched (marker_filename m # pending) ms
      else marker_filename m \<in> set pending
           \<and> stops_matched (remove1 (marker_filename m) pending) ms)"

text \<open>
  A video run in which \<open>start_recording\<close> with \<open>pre_initialize=True\<close> is never called
  while the recorder is recording.
\<close>

fun no_arm_while_recording :: "video_op list \<Rightarrow> video_recorder \<Rightarrow> bool" where
  "no_arm_while_recording [] s = True"
| "no_arm_while_recording (op # ops) s =
     ((case op of
         VStartRecording env subject_id destination device_index pre_initialize filename \<Rightarrow>
           \<not> (pre_initialize \<and> v_recording s)
       | _ \<Rightarrow> True)
      \<and> no_arm_while_recording ops (fst (video_step op s)))"

section \<open>A laboratory setup\<close>

text \<open>
  Concrete inputs for the instances below: subject \<open>S1\<close>, destination \<open>out\<close>, one
  input device, audio configured at 44100 Hz and one channel, video at 24 frames per
  second and 640 by 480, a clock that stands still.
\<close>

definition lab_time :: datetime where
  "lab_time = \<lparr> year = 2024, month = 3, day = 7, hour = 9, minute = 5, second = 30,
                microsecond = 1250 \<rparr>"

definition lab_mic :: device_info where
  "lab_mic = \<lparr> dev_name = ''Default Microphone'', hostApi = 0, maxInputChannels = 2,
               defaultSampleRate = 48000 \<rparr>"

definition lab_audio_config :: audio_config where
  "lab_audio_config =
     \<lparr> ac_device_name = Some ''Default'', ac_host_api = Some [0, 1, 2, 3],
       ac_use_device_defaults = Some False, ac_fallback_settings = None,
       ac_channels = Some 1, ac_sample_rate = Some 44100, ac_chunk_duration = Some (1 / 10),
       ac_format = Some ''paInt24'', ac_filename_suffix = Some ''_audio'' \<rparr>"

definition lab_video_config :: video_config where
  "lab_video_config =
     \<lparr> vc_width = 640, vc_height = 480, vc_fps = IntN 24, vc_codec = ''mp4v'',
       vc_filename_suffix = Some ''_video'', vc_show_timestamp = Some False \<rparr>"

definition lab_core_config :: core_config where
  "lab_core_config = \<lparr> audio_filename_suffix = ''_audio'', video_filename_suffix = ''_video'' \<rparr>"

definition lab_audio_env :: audio_env where
  "lab_audio_env =
     \<lparr> ae_devices = [lab_mic], ae_open_raises = False, ae_makedirs_raises = False,
       ae_start_stream_raises = False, ae_stop_raises = None, ae_clock = (\<lambda>k. lab_time) \<rparr>"

definition lab_video_env :: video_env where
  "lab_video_env =
     \<lparr> ve_camera_opens = True, ve_reported_fps = 30, ve_reads = [False, True],
       ve_start_raises = None, ve_stop_raises = None, ve_thread_alive = False,
       ve_clock = (\<lambda>k. lab_time) \<rparr>"

definition lab_both_env :: both_env where
  "lab_both_env =
     \<lparr> be_now = lab_time, be_makedirs_raises = False, be_audio_arm = lab_audio_env,
       be_video_arm = lab_video_env, be_audio_go = lab_audio_env, be_video_go = lab_video_env \<rparr>"

definition lab_core :: recorder_core where
  "lab_core = core_init lab_core_config lab_audio_config lab_video_config"

text \<open>
  The two recorders of the laboratory after a direct start (\<open>pre_initialize=False\<close>)
  and after arming (\<open>pre_initialize=True\<close>) with the given file names.
\<close>

definition lab_audio_recording :: audio_recorder where
  "lab_audio_recording =
     fst (snd (start_recording_audio lab_audio_env ''S1'' ''out'' None False
                 (Some ''out/S1_audio_t.wav'') (audio_init lab_audio_config)))"

definition lab_video_recording :: video_recorder where
  "lab_video_recording =
     fst (snd (start_recording_video lab_video_env ''S1'' ''out'' None False
                 (Some ''out/S1_video_t.mp4'') (video_init lab_video_config)))"

definition lab_audio_armed :: audio_recorder where
  "lab_audio_armed =
     fst (snd (start_recording_audio lab_audio_env ''S1'' ''out'' None True
                 (Some ''out/S1_audio_t.wav'') (audio_init lab_audio_config)))"

definition lab_video_armed :: video_recorder where
  "lab_video_armed =
     fst (snd (start_recording_video lab_video_env ''S1'' ''out'' None True
                 (Some ''out/S1_video_t.mp4'') (video_init lab_video_config)))"

text \<open>
  Start and stop markers counted without regard to the file name: reading the markers
  in order, every stop marker uses up one earlier start marker; \<open>n\<close> is the number of
  start markers not yet used.
\<close>

fun stops_counted :: "nat \<Rightarrow> marker list \<Rightarrow> bool" where
  "stops_counted n [] = True"
| "stops_counted n (m # ms) =
     (if is_start m then stops_counted (Suc n) ms else 0 < n \<and> stops_counted (n - 1) ms)"

text \<open>
  Three sessions of the laboratory: an audio and a video session that arm, start
  streaming and stop, and a video session that is started directly on one file name,
  armed again on another while recording, and stopped.
\<close>

definition lab_audio_session :: "audio_op list" where
  "lab_audio_session =
     [AStartRecording lab_audio_env ''S1'' ''out'' None True (Some ''out/S1_audio_t.wav''),
      AStartPreInitialized lab_audio_env ''S1'',
      ACallback [1, 2, 3],
      AStopRecording lab_audio_env]"

definition lab_video_session :: "video_op list" where
  "lab_video_session =
     [VStartRecording lab_video_env ''S1'' ''out'' None True (Some ''out/S1_video_t.mp4''),
      VStartPreInitialized lab_video_env ''S1'',
      VStopRecording lab_video_env]"

definition lab_video_rearmed_session :: "video_op list" where
  "lab_video_rearmed_session =
     [VStartRecording lab_video_env ''S1'' ''out'' None False (Some ''out/S1_video_t.mp4''),
      VStartRecording lab_video_env ''S1'' ''out'' None True (Some ''out/other.mp4''),
      VStopRecording lab_video_env]"

text \<open>
  Two joint starts of the laboratory that go wrong while arming: one in which the
  camera cannot be opened, and one in which no audio input device is present.
\<close>

definition lab_both_env_no_camera :: both_env where
  "lab_both_env_no_camera =
     lab_both_env\<lparr>be_video_arm := lab_video_env\<lparr>ve_camera_opens := False\<rparr>\<rparr>"

definition lab_both_env_no_mic :: both_env where
  "lab_both_env_no_mic =
     lab_both_env\<lparr>be_audio_arm := lab_audio_env\<lparr>ae_devices := []\<rparr>\<rparr>"

section \<open>Evaluating the text functions\<close>

lemma str_nat_small: "n < 10 \<Longrightarrow> str_nat n = [digit_char n]"
  by (simp add: str_nat.simps)

lemma str_nat_big: "10 \<le> n \<Longrightarrow> str_nat n = str_nat (n div 10) @ [digit_char n]"
  by (subst str_nat.simps) simp

lemma replicate_numeral_eval: "replicate (numeral v) x = x # replicate (numeral v - 1) x"
  by (simp add: numeral_eq_Suc)

lemmas str_eval = str_nat_small str_nat_big str_int_def digit_char_def zfill_def
  replicate_numeral_eval


lemma lab_time_iso: "isoformat lab_time = ''2024-03-07T09:05:30.001250''"
  by (simp add: str_eval isoformat_def lab_time_def)

section \<open>Marker payloads are comma-delimited records\<close>

lemma split_comma_acc_plain:
  "CHR '','' \<notin> set f \<Longrightarrow> split_comma_acc acc f = [rev acc @ f]"
  by (induction f arbitrary: acc) auto

lemma split_comma_acc_field:
  "CHR '','' \<notin> set f \<Longrightarrow>
   split_comma_acc acc (f @ CHR '','' # rest) = (rev acc @ f) # split_comma_acc [] rest"
  by (induction f arbitrary: acc) auto

lemma split_join_comma:
  "fs \<noteq> [] \<Longrightarrow> \<forall>f\<in>set fs. CHR '','' \<notin> set f \<Longrightarrow> split_comma (join_comma fs) = fs"
  unfolding split_comma_def
proof (induction fs rule: join_comma.induct)
  case 1
  then show ?case by simp
next
  case (2 f)
  then show ?case by (simp add: split_comma_acc_plain)
next
  case (3 f g fs)
  then show ?case by (simp add: split_comma_acc_field)
qed

lemma marker_fields_nonempty: "marker_fields float_repr m \<noteq> []"
  by (cases m) auto

lemma marker_payload_join:
  "marker_payload float_repr m = join_comma (marker_fields float_repr m)"
  by (cases m)
     (simp_all add: audio_start_payload_def audio_stop_payload_def video_start_payload_def
        video_stop_payload_def)

text \<open>
  C8. The payload of every marker is its fields joined by commas, in the order
  AUDIO\_START, subject id, file name, coarse timestamp, channels, sample rate and, when
  given, the ISO timestamp; AUDIO\_STOP, file name, coarse timestamp; VIDEO\_START,
  subject id, file name, coarse timestamp, ISO timestamp, fps; VIDEO\_STOP, file name,
  coarse timestamp. When no field holds a comma, splitting the payload at the commas
  gives these fields back.
\<close>

theorem marker_payload_fields_in_order:
  "marker_payload float_repr m = join_comma (marker_fields float_repr m) \<and>
   ((\<forall>f\<in>set (marker_fields float_repr m). CHR '','' \<notin> set f) \<longrightarrow>
      split_comma (marker_payload float_repr m) = marker_fields float_repr m)"
  by (simp add: marker_payload_join split_join_comma marker_fields_nonempty)

theorem marker_payload_fields_in_order_witness:
  "marker_payload (\<lambda>r. ''24.0'') (AudioStart ''S1'' (Some ''a.wav'') ''20240307_090530'' (Some 1)
      (Some 44100) None) = ''AUDIO_START,S1,a.wav,20240307_090530,1,44100'' \<and>
   split_comma (marker_payload (\<lambda>r. ''24.0'') (VideoStop (Some ''v.mp4'') ''20240307_090530''))
     = [''VIDEO_STOP'', ''v.mp4'', ''20240307_090530'']"
proof -
  let ?a = "AudioStart ''S1'' (Some ''a.wav'') ''20240307_090530'' (Some 1) (Some 44100) None"
  let ?v = "VideoStop (Some ''v.mp4'') ''20240307_090530''"
  have fa: "marker_fields (\<lambda>r. ''24.0'') ?a =
      [''AUDIO_START'', ''S1'', ''a.wav'', ''20240307_090530'', ''1'', ''44100'']"
    by (simp add: truthy_def str_eval)
  have fv: "marker_fields (\<lambda>r. ''24.0'') ?v = [''VIDEO_STOP'', ''v.mp4'', ''20240307_090530'']"
    by simp
  have "marker_payload (\<lambda>r. ''24.0'') ?a = join_comma (marker_fields (\<lambda>r. ''24.0'') ?a)"
    using marker_payload_fields_in_order [of "\<lambda>r. ''24.0''" ?a] by (rule conjunct1)
  then have one: "marker_payload (\<lambda>r. ''24.0'') ?a = ''AUDIO_START,S1,a.wav,20240307_090530,1,44100''"
    unfolding fa by simp
  have "\<forall>f\<in>set (marker_fields (\<lambda>r. ''24.0'') ?v). CHR '','' \<notin> set f"
    unfolding fv by simp
  with marker_payload_fields_in_order [of "\<lambda>r. ''24.0''" ?v]
  have "split_comma (marker_payload (\<lambda>r. ''24.0'') ?v) = marker_fields (\<lambda>r. ''24.0'') ?v"
    by blast
  then have two: "split_comma (marker_payload (\<lambda>r. ''24.0'') ?v)
      = [''VIDEO_STOP'', ''v.mp4'', ''20240307_090530'']"
    unfolding fv .
  from one two show ?thesis by (rule conjI)
qed

section \<open>The audio recorder's start\_recording\<close>

lemma sample_width_of_table:
  "sample_width_of paInt16 = 2" "sample_width_of paInt24 = 3"
  "sample_width_of paInt32 = 4" "sample_width_of paFloat32 = 4"
  by (simp_all add: sample_width_of_def format_map_def dict_get_def paInt16_def paInt24_def
        paInt32_def paFloat32_def)

lemma sample_width_of_default:
  "v \<notin> {paInt16, paInt24, paInt32, paFloat32} \<Longrightarrow> sample_width_of v = 2"
  by (simp add: sample_width_of_def format_map_def dict_get_def)

text \<open>The ways a call of \<open>start_recording\<close> can go, with the state each one leaves.\<close>

lemma start_recording_audio_selected:
  assumes "\<not> a_recording s"
  shows "start_recording_audio env subject_id destination (Some i) pre filename s =
     (case get_device_info_by_index env i of
        None \<Rightarrow> (Raised, s\<lparr>audio_p := Some Live\<rparr>, [PaInit])
      | Some info \<Rightarrow>
          (case negotiate (a_config s) info of
             (channels, rate, chunk_duration, fmt) \<Rightarrow>
               (case fmt of
                  None \<Rightarrow> (Raised, s\<lparr>audio_p := Some Live, actual_channels := Some channels,
                                     actual_sample_rate := Some rate\<rparr>, [PaInit])
                | Some format_value \<Rightarrow>
                    audio_open_section env subject_id destination i pre filename format_value
                      (py_int (of_int rate * chunk_duration))
                      (s\<lparr>audio_p := Some Live, actual_channels := Some channels,
                         actual_sample_rate := Some rate,
                         actual_sample_width := Some (sample_width_of format_value)\<rparr>)
                      [PaInit])))"
  using assms
  by (simp add: start_recording_audio_def Let_def split: option.split prod.split)

lemma start_recording_audio_by_name:
  assumes "\<not> a_recording s"
  shows "start_recording_audio env subject_id destination None pre filename s =
     (case first_match 0 (ae_devices env) (dict_get ''Default'' (ac_device_name (a_config s)))
             (dict_get [0, 1, 2, 3] (ac_host_api (a_config s))) of
        None \<Rightarrow> (Failure DeviceNotFound, s\<lparr>audio_p := None\<rparr>, [PaInit, PaTerminate])
      | Some i \<Rightarrow>
          start_recording_audio env subject_id destination (Some (int i)) pre filename s)"
  using assms
  by (simp add: start_recording_audio_def find_device_def Let_def split: option.split)

lemma start_recording_audio_elim:
  assumes "start_recording_audio env subject_id destination device_index pre filename s = (r, s', evs)"
  obtains
    (already) "a_recording s" "r = Failure AlreadyRecording" "s' = s" "evs = []"
  | (not_found) "\<not> a_recording s" "r = Failure DeviceNotFound" "s' = s\<lparr>audio_p := None\<rparr>"
      "evs = [PaInit, PaTerminate]"
  | (bad_index) "\<not> a_recording s" "r = Raised" "s' = s\<lparr>audio_p := Some Live\<rparr>" "evs = [PaInit]"
  | (bad_format) c ra where "\<not> a_recording s" "r = Raised"
      "s' = s\<lparr>audio_p := Some Live, actual_channels := Some c, actual_sample_rate := Some ra\<rparr>"
      "evs = [PaInit]"
  | (guarded) idx c ra fmt chunk where "\<not> a_recording s"
      "audio_open_section env subject_id destination idx pre filename fmt chunk
         (s\<lparr>audio_p := Some Live, actual_channels := Some c, actual_sample_rate := Some ra,
            actual_sample_width := Some (sample_width_of fmt)\<rparr>) [PaInit] = (r, s', evs)"
proof (cases "a_recording s")
  case True
  with assms have "r = Failure AlreadyRecording" "s' = s" "evs = []"
    by (simp_all add: start_recording_audio_def)
  with True show ?thesis by (rule already)
next
  case False
  have selected: thesis
    if sel: "start_recording_audio env subject_id destination (Some i) pre filename s = (r, s', evs)"
    for i
  proof (cases "get_device_info_by_index env i")
    case None
    with sel False have "r = Raised" "s' = s\<lparr>audio_p := Some Live\<rparr>" "evs = [PaInit]"
      by (simp_all add: start_recording_audio_selected)
    with False show ?thesis by (rule bad_index)
  next
    case (Some info)
    obtain c ra cd fmt where neg: "negotiate (a_config s) info = (c, ra, cd, fmt)"
      by (cases "negotiate (a_config s) info") auto
    show ?thesis
    proof (cases fmt)
      case None
      with sel False Some neg have "r = Raised"
        "s' = s\<lparr>audio_p := Some Live, actual_channels := Some c, actual_sample_rate := Some ra\<rparr>"
        "evs = [PaInit]"
        by (simp_all add: start_recording_audio_selected)
      with False show ?thesis by (rule bad_format)
    next
      case (Some format_value)
      with sel False \<open>get_device_info_by_index env i = Some info\<close> neg
      have "audio_open_section env subject_id destination i pre filename format_value
              (py_int (of_int ra * cd))
              (s\<lparr>audio_p := Some Live, actual_channels := Some c, actual_sample_rate := Some ra,
                 actual_sample_width := Some (sample_width_of format_value)\<rparr>) [PaInit]
            = (r, s', evs)"
        by (simp add: start_recording_audio_selected)
      with False show ?thesis by (rule guarded)
    qed
  qed
  show ?thesis
  proof (cases device_index)
    case (Some i)
    with assms show ?thesis by (intro selected) simp
  next
    case None
    show ?thesis
    proof (cases "first_match 0 (ae_devices env) (dict_get ''Default'' (ac_device_name (a_config s)))
             (dict_get [0, 1, 2, 3] (ac_host_api (a_config s)))")
      case (Some i)
      with assms None False show ?thesis
        by (intro selected [of "int i"]) (simp add: start_recording_audio_by_name)
    next
      case nf: None
      with assms None False have "r = Failure DeviceNotFound" "s' = s\<lparr>audio_p := None\<rparr>"
        "evs = [PaInit, PaTerminate]"
        by (simp_all add: start_recording_audio_by_name)
      with False show ?thesis by (rule not_found)
    qed
  qed
qed

lemma start_recording_audio_width:
  assumes "start_recording_audio env subject_id destination device_index pre filename s = (r, s', evs)"
    and "StreamOpen fmt c ra ch i st \<in> set evs"
  shows "actual_sample_width s' = Some (sample_width_of fmt)"
  using assms(1)
proof (cases rule: start_recording_audio_elim)
  case (guarded idx c' ra' fmt' chunk)
  from guarded(2) assms(2) have "fmt' = fmt"
    by (auto simp: audio_open_section_def Let_def split: if_splits)
  moreover from guarded(2) have "actual_sample_width s' = Some (sample_width_of fmt')"
    by (auto simp: audio_open_section_def Let_def split: if_splits)
  ultimately show ?thesis by simp
qed (use assms(2) in auto)

lemma lab_audio_arm:
  "start_recording_audio lab_audio_env ''S1'' ''out'' None True (Some ''out/S1_audio_t.wav'')
     (audio_init lab_audio_config) =
   (Success,
    (audio_init lab_audio_config)\<lparr>audio_p := Some Live, actual_channels := Some 1,
       actual_sample_rate := Some 44100, actual_sample_width := Some 3,
       audio_stream := Some Stopped, audio_frames := [],
       audio_filename := Some ''out/S1_audio_t.wav''\<rparr>,
    [PaInit, StreamOpen paInt24 1 44100 4410 0 False])"
  by (simp add: start_recording_audio_def audio_open_section_def find_device_def
      get_device_info_by_index_def negotiate_def pyaudio_getattr_def sample_width_of_table
      lab_audio_env_def lab_audio_config_def lab_mic_def audio_init_def dict_get_def truthy_def
      py_int_def Let_def)

text \<open>
  C9. The sample width stored by \<open>start_recording\<close> is the table's value for the
  format the stream was opened with: 2 for paInt16, 3 for paInt24, 4 for paInt32 and
  for paFloat32, and 2 for every other format value.
\<close>

theorem audio_sample_width_from_format:
  "sample_width_of paInt16 = 2 \<and> sample_width_of paInt24 = 3 \<and>
   sample_width_of paInt32 = 4 \<and> sample_width_of paFloat32 = 4 \<and>
   (\<forall>v. v \<notin> {paInt16, paInt24, paInt32, paFloat32} \<longrightarrow> sample_width_of v = 2) \<and>
   (\<forall>r s' evs fmt c ra ch i st.
      start_recording_audio env subject_id destination device_index pre_initialize filename s
        = (r, s', evs) \<longrightarrow>
      StreamOpen fmt c ra ch i st \<in> set evs \<longrightarrow>
      actual_sample_width s' = Some (sample_width_of fmt))"
proof (intro conjI allI impI)
  show "sample_width_of paInt16 = 2" by (rule sample_width_of_table)
  show "sample_width_of paInt24 = 3" by (rule sample_width_of_table)
  show "sample_width_of paInt32 = 4" by (rule sample_width_of_table)
  show "sample_width_of paFloat32 = 4" by (rule sample_width_of_table)
  show "sample_width_of v = 2" if "v \<notin> {paInt16, paInt24, paInt32, paFloat32}" for v
    using that by (rule sample_width_of_default)
  show "actual_sample_width s' = Some (sample_width_of fmt)"
    if "start_recording_audio env subject_id destination device_index pre_initialize filename s
          = (r, s', evs)"
      and "StreamOpen fmt c ra ch i st \<in> set evs"
    for r s' evs fmt c ra ch i st
    using that by (rule start_recording_audio_width)
qed

theorem audio_sample_width_from_format_witness:
  "sample_width_of paInt8 = 2 \<and>
   actual_sample_width (fst (snd (start_recording_audio lab_audio_env ''S1'' ''out'' None True
      (Some ''out/S1_audio_t.wav'') (audio_init lab_audio_config)))) = Some (sample_width_of paInt24)"
proof -
  note t = audio_sample_width_from_format
      [of lab_audio_env "''S1''" "''out''" None True "Some ''out/S1_audio_t.wav''"
          "audio_init lab_audio_config"]
  from t have other: "\<forall>v. v \<notin> {paInt16, paInt24, paInt32, paFloat32} \<longrightarrow> sample_width_of v = 2"
    by (elim conjE)
  from t have stored: "\<forall>r s' evs fmt c ra ch i st.
      start_recording_audio lab_audio_env ''S1'' ''out'' None True (Some ''out/S1_audio_t.wav'')
        (audio_init lab_audio_config) = (r, s', evs) \<longrightarrow>
      StreamOpen fmt c ra ch i st \<in> set evs \<longrightarrow>
      actual_sample_width s' = Some (sample_width_of fmt)"
    by (elim conjE)
  have "paInt8 \<notin> {paInt16, paInt24, paInt32, paFloat32}"
    by (simp add: paInt8_def paInt16_def paInt24_def paInt32_def paFloat32_def)
  then have one: "sample_width_of paInt8 = 2"
    by (rule other [rule_format])
  have opened: "StreamOpen paInt24 1 44100 4410 0 False
      \<in> set [PaInit, StreamOpen paInt24 1 44100 4410 0 False]"
    by simp
  have two: "actual_sample_width (fst (snd (start_recording_audio lab_audio_env ''S1'' ''out''
      None True (Some ''out/S1_audio_t.wav'') (audio_init lab_audio_config))))
      = Some (sample_width_of paInt24)"
    using stored [rule_format, OF lab_audio_arm opened]
    unfolding lab_audio_arm fst_conv snd_conv .
  from one two show ?thesis by (rule conjI)
qed

text \<open>
  C10. A call of \<open>start_recording\<close> on an audio recorder that is recording returns
  \<open>False\<close>, whatever \<open>pre_initialize\<close> is, and changes no attribute: the stream, the
  frames, the file name and the negotiated channel count, sample rate and sample width
  are as before, and nothing is done to the outside.
\<close>

theorem start_recording_audio_already_recording:
  "a_recording s \<Longrightarrow>
   start_recording_audio env subject_id destination device_index pre_initialize filename s =
     (Failure AlreadyRecording, s, [])"
  by (simp add: start_recording_audio_def)

lemma markers_of_append [simp]: "markers_of (xs @ ys) = markers_of xs @ markers_of ys"
  by (induction xs rule: markers_of.induct) auto

lemma video_start_handler_keeps:
  assumes "video_start_handler s evs0 = (r, s', evs)"
  shows "r = Failure InternalError" "v_recording s' = v_recording s"
    "video_filename s' = video_filename s" "video_capture s' \<noteq> Some (Capture True)"
    "markers_of evs = markers_of evs0" "video_writer s' = video_writer s"
    "thread_active s' = thread_active s" "v_config s' = v_config s"
  using assms
  by (auto simp: video_start_handler_def split: option.splits)

text \<open>The ways the writer section can go.\<close>

lemma video_writer_section_elim:
  assumes "video_writer_section env subject_id pre named s evs0 = (r, s', evs)"
  obtains
    (handler) s1 evs1 where "video_start_handler s1 evs1 = (r, s', evs)"
      "v_recording s1 = v_recording s" "video_filename s1 = video_filename s"
      "markers_of evs1 = markers_of evs0" "thread_active s1 = thread_active s"
      "v_config s1 = v_config s"
  | (armed) k where "pre" "r = Success"
      "s' = s\<lparr>video_start_time := Some (ve_clock env k), video_writer := Some Writer\<rparr>"
      "evs = evs0 @ [WriterOpen (the (video_filename s)) (the (actual_fps s))]"
  | (started) k ws where "\<not> pre" "r = Success"
      "s' = s\<lparr>video_start_time := Some (ve_clock env k), video_writer := Some Writer,
              v_recording := True, thread_active := True, video_thread := Some Thread,
              exact_video_start := Some (ve_clock env (k + 1))\<rparr>"
      "evs = evs0 @ [WriterOpen (the (video_filename s)) (the (actual_fps s))] @ ws @
             [ThreadStart RecordingThread,
              Send (VideoStart subject_id (video_filename s)
                     (strftime_coarse (ve_clock env (k + 2)))
                     (isoformat (ve_clock env (k + 1))) (actual_fps s))]"
      "markers_of ws = []"
proof -
  define k :: nat where "k = (if named then 0 else 1)"
  define s1 where "s1 = s\<lparr>video_start_time := Some (ve_clock env k)\<rparr>"
  define s2 where "s2 = s1\<lparr>video_writer := Some Writer\<rparr>"
  define evs2 where "evs2 = evs0 @ [WriterOpen (the (video_filename s)) (the (actual_fps s))]"
  define ws where "ws = (if warm_up 10 (ve_reads env) \<and> \<not> pre then [WriterWrite] else [])"
  show thesis
  proof (cases "length (vc_codec (v_config s)) \<noteq> 4 \<or> ve_start_raises env = Some AtWriter")
    case True
    with assms have "video_start_handler s1 evs0 = (r, s', evs)"
      by (simp add: video_writer_section_def Let_def s1_def k_def)
    then show ?thesis
      by (rule handler) (simp_all add: s1_def)
  next
    case no_writer_fault: False
    show ?thesis
    proof (cases "ve_start_raises env = Some AtWarmUp")
      case True
      with assms no_writer_fault have "video_start_handler s2 evs2 = (r, s', evs)"
        by (simp add: video_writer_section_def Let_def s1_def s2_def evs2_def k_def)
      then show ?thesis
        by (rule handler) (simp_all add: s1_def s2_def evs2_def)
    next
      case no_read_fault: False
      show ?thesis
      proof (cases pre)
        case True
        with assms no_writer_fault no_read_fault
        have "r = Success" "s' = s2" "evs = evs2"
          by (simp_all add: video_writer_section_def Let_def s1_def s2_def evs2_def k_def)
        with True show ?thesis
          by (intro armed [of k]) (simp_all add: s1_def s2_def evs2_def)
      next
        case False
        with assms no_writer_fault no_read_fault
        have "r = Success"
          "s' = s2\<lparr>v_recording := True, thread_active := True, video_thread := Some Thread,
                    exact_video_start := Some (ve_clock env (k + 1))\<rparr>"
          "evs = evs2 @ ws @ [ThreadStart RecordingThread,
              Send (VideoStart subject_id (video_filename s2)
                     (strftime_coarse (ve_clock env (k + 2)))
                     (isoformat (ve_clock env (k + 1))) (actual_fps s2))]"
          by (simp_all add: video_writer_section_def Let_def s1_def s2_def evs2_def k_def ws_def)
        with False show ?thesis
          by (intro started [of k ws]) (simp_all add: s1_def s2_def evs2_def ws_def)
      qed
    qed
  qed
qed

text \<open>The ways a call of the video recorder's \<open>start_recording\<close> can go.\<close>

lemma start_recording_video_elim:
  assumes "start_recording_video env subject_id destination device_index pre filename s = (r, s', evs)"
  obtains
    (already) "v_recording s" "\<not> pre" "r = Failure AlreadyRecording" "s' = s" "evs = []"
  | (makedirs) "\<not> (v_recording s \<and> \<not> pre)" "video_start_handler s [] = (r, s', evs)"
  | (cannot_open) idx where "\<not> (v_recording s \<and> \<not> pre)" "r = Failure DeviceOpenError"
      "s' = s\<lparr>video_capture := Some (Capture False)\<rparr>" "evs = [CapOpen idx]"
  | (opened) c fps evs0 where "\<not> (v_recording s \<and> \<not> pre)" "isOpened c" "markers_of evs0 = []"
      "video_writer_section env subject_id pre (truthy filename)
         (s\<lparr>video_capture := Some c, actual_fps := Some fps,
            video_filename :=
              (if truthy filename then filename
               else Some (os_path_join destination
                      (subject_id @ dict_get ''_video'' (vc_filename_suffix (v_config s))
                       @ ''_'' @ strftime_coarse (ve_clock env 0) @ ''.mp4'')))\<rparr>) evs0
       = (r, s', evs)"
proof (cases "v_recording s \<and> \<not> pre")
  case True
  with assms have "r = Failure AlreadyRecording" "s' = s" "evs = []"
    by (simp_all add: start_recording_video_def)
  with True show ?thesis by (intro already) simp_all
next
  case open_call: False
  show ?thesis
  proof (cases "ve_start_raises env = Some AtMakedirs")
    case True
    with assms open_call have "video_start_handler s [] = (r, s', evs)"
      by (auto simp: start_recording_video_def)
    with open_call show ?thesis by (rule makedirs)
  next
    case dirs: False
    define camera_index where "camera_index = (case device_index of None \<Rightarrow> 0 | Some i \<Rightarrow> i)"
    define reuse where "reuse = (case video_capture s of None \<Rightarrow> False | Some c \<Rightarrow> isOpened c)"
    define c where "c = (if reuse then the (video_capture s) else Capture (ve_camera_opens env))"
    define evs0 where "evs0 = (if reuse then [] else [CapOpen camera_index])"
    define fps where "fps = (if 0 < ve_reported_fps env
          \<and> ve_reported_fps env < number_value (vc_fps (v_config s))
        then FloatN (ve_reported_fps env) else vc_fps (v_config s))"
    show ?thesis
    proof (cases "isOpened c")
      case False
      then have nr: "\<not> reuse" "c = Capture False"
        by (auto simp: c_def reuse_def split: option.splits if_splits)
      from assms open_call dirs False have "r = Failure DeviceOpenError"
        "s' = s\<lparr>video_capture := Some c\<rparr>" "evs = evs0"
        unfolding start_recording_video_def Let_def camera_index_def [symmetric]
          reuse_def [symmetric] c_def [symmetric] evs0_def [symmetric]
        by simp_all
      with open_call nr show ?thesis
        by (intro cannot_open [of camera_index]) (simp_all add: evs0_def)
    next
      case True
      with assms open_call dirs have "video_writer_section env subject_id pre (truthy filename)
         (s\<lparr>video_capture := Some c, actual_fps := Some fps,
            video_filename :=
              (if truthy filename then filename
               else Some (os_path_join destination
                      (subject_id @ dict_get ''_video'' (vc_filename_suffix (v_config s))
                       @ ''_'' @ strftime_coarse (ve_clock env 0) @ ''.mp4'')))\<rparr>) evs0
         = (r, s', evs)"
        unfolding start_recording_video_def Let_def camera_index_def [symmetric]
          reuse_def [symmetric] c_def [symmetric] evs0_def [symmetric] fps_def [symmetric]
        by simp
      with open_call True show ?thesis
        by (intro opened [of c evs0 fps]) (simp_all add: evs0_def)
    qed
  qed
qed

lemma start_recording_video_pre:
  assumes "start_recording_video env subject_id destination device_index True filename s = (r, s', evs)"
  shows "v_recording s' = v_recording s" "markers_of evs = []" "thread_active s' = thread_active s"
proof -
  have "v_recording s' = v_recording s \<and> markers_of evs = [] \<and> thread_active s' = thread_active s"
    using assms
  proof (cases rule: start_recording_video_elim)
    case makedirs
    from video_start_handler_keeps [OF makedirs(2)] show ?thesis by simp
  next
    case (opened c fps evs0)
    from opened(4) show ?thesis
    proof (cases rule: video_writer_section_elim)
      case (handler s1 evs1)
      from video_start_handler_keeps [OF handler(1)] handler(2-) opened(3) show ?thesis by simp
    next
      case (armed k)
      with opened(3) show ?thesis by simp
    qed simp
  qed simp_all
  then show "v_recording s' = v_recording s" "markers_of evs = []"
    "thread_active s' = thread_active s"
    by simp_all
qed

lemma start_recording_video_failed:
  assumes "start_recording_video env subject_id destination device_index pre filename s = (r, s', evs)"
    and "r \<noteq> Success"
  shows "v_recording s' = v_recording s" "markers_of evs = []"
    "\<not> v_recording s \<Longrightarrow> video_capture s' \<noteq> Some (Capture True)"
proof -
  have "v_recording s' = v_recording s \<and> markers_of evs = [] \<and>
        (\<not> v_recording s \<longrightarrow> video_capture s' \<noteq> Some (Capture True))"
    using assms(1)
  proof (cases rule: start_recording_video_elim)
    case makedirs
    from video_start_handler_keeps [OF makedirs(2)] show ?thesis by simp
  next
    case (opened c fps evs0)
    from opened(4) show ?thesis
    proof (cases rule: video_writer_section_elim)
      case (handler s1 evs1)
      from video_start_handler_keeps [OF handler(1)] handler(2-) opened(3) show ?thesis by simp
    qed (use assms(2) in simp_all)
  qed simp_all
  then show "v_recording s' = v_recording s" "markers_of evs = []"
    "\<not> v_recording s \<Longrightarrow> video_capture s' \<noteq> Some (Capture True)"
    by simp_all
qed

lemma start_recording_video_started:
  assumes "start_recording_video env subject_id destination device_index False filename s = (Success, s', evs)"
  shows "v_recording s'" "\<not> v_recording s"
    "\<exists>ts it. markers_of evs = [VideoStart subject_id (video_filename s') ts it (actual_fps s')]"
proof -
  have "v_recording s' \<and> \<not> v_recording s \<and>
     (\<exists>ts it. markers_of evs = [VideoStart subject_id (video_filename s') ts it (actual_fps s')])"
    using assms
  proof (cases rule: start_recording_video_elim)
    case makedirs
    from video_start_handler_keeps [OF makedirs(2)] show ?thesis by simp
  next
    case (opened c fps evs0)
    from opened(4) show ?thesis
    proof (cases rule: video_writer_section_elim)
      case (handler s1 evs1)
      from video_start_handler_keeps [OF handler(1)] show ?thesis by simp
    next
      case (started k ws)
      with opened(1,3) show ?thesis by simp
    qed simp
  qed simp_all
  then show "v_recording s'" "\<not> v_recording s"
    "\<exists>ts it. markers_of evs = [VideoStart subject_id (video_filename s') ts it (actual_fps s')]"
    by simp_all
qed

section \<open>The audio recorder's guarded section\<close>

lemma audio_open_section_pre:
  assumes "audio_open_section env subject_id destination idx True filename fmt chunk s evs0 = (r, s', evs)"
  shows "a_recording s' = a_recording s" "markers_of evs = markers_of evs0"
  using assms
  by (auto simp: audio_open_section_def Let_def split: if_splits)

lemma audio_open_section_failed:
  assumes "audio_open_section env subject_id destination idx pre filename fmt chunk s evs0 = (r, s', evs)"
    and "r \<noteq> Success"
  shows "a_recording s' = a_recording s" "markers_of evs = markers_of evs0"
    "audio_p s' = Some Terminated" "\<exists>evs1. evs = evs1 @ [PaTerminate]"
    "audio_stream s' = audio_stream s \<or> audio_stream s' = Some Closed"
    "\<exists>e. r = Failure e"
  using assms
  by (auto simp: audio_open_section_def Let_def split: if_splits)

lemma audio_open_section_started:
  assumes "audio_open_section env subject_id destination idx False filename fmt chunk s evs0 = (Success, s', evs)"
  shows "a_recording s'"
    "\<exists>ts. markers_of evs = markers_of evs0 @
       [AudioStart subject_id (audio_filename s') ts (actual_channels s') (actual_sample_rate s') None]"
  using assms
  by (auto simp: audio_open_section_def Let_def split: if_splits)


lemma start_recording_audio_pre:
  assumes "start_recording_audio env subject_id destination device_index True filename s = (r, s', evs)"
  shows "a_recording s' = a_recording s" "markers_of evs = []"
proof -
  have "a_recording s' = a_recording s \<and> markers_of evs = []"
    using assms
  proof (cases rule: start_recording_audio_elim)
    case (guarded idx c ra fmt chunk)
    from audio_open_section_pre [OF guarded(2)] show ?thesis by simp
  qed simp_all
  then show "a_recording s' = a_recording s" "markers_of evs = []"
    by simp_all
qed

lemma start_recording_audio_failed:
  assumes "start_recording_audio env subject_id destination device_index pre filename s = (r, s', evs)"
    and "r \<noteq> Success"
  shows "a_recording s' = a_recording s" "markers_of evs = []"
proof -
  have "a_recording s' = a_recording s \<and> markers_of evs = []"
    using assms(1)
  proof (cases rule: start_recording_audio_elim)
    case (guarded idx c ra fmt chunk)
    from audio_open_section_failed(1,2) [OF guarded(2) assms(2)] show ?thesis by simp
  qed simp_all
  then show "a_recording s' = a_recording s" "markers_of evs = []"
    by simp_all
qed

lemma start_recording_audio_started:
  assumes "start_recording_audio env subject_id destination device_index False filename s = (Success, s', evs)"
  shows "a_recording s'" "\<not> a_recording s"
    "\<exists>ts. markers_of evs =
       [AudioStart subject_id (audio_filename s') ts (actual_channels s') (actual_sample_rate s') None]"
proof -
  have "a_recording s' \<and> \<not> a_recording s \<and> (\<exists>ts. markers_of evs =
       [AudioStart subject_id (audio_filename s') ts (actual_channels s') (actual_sample_rate s') None])"
    using assms
  proof (cases rule: start_recording_audio_elim)
    case (guarded idx c ra fmt chunk)
    from audio_open_section_started [OF guarded(2)] guarded(1) show ?thesis by simp
  qed simp_all
  then show "a_recording s'" "\<not> a_recording s"
    "\<exists>ts. markers_of evs =
       [AudioStart subject_id (audio_filename s') ts (actual_channels s') (actual_sample_rate s') None]"
    by simp_all
qed

section \<open>The laboratory recorders, evaluated\<close>

lemmas lab_audio_defs = start_recording_audio_def audio_open_section_def find_device_def
  get_device_info_by_index_def negotiate_def pyaudio_getattr_def sample_width_of_table
  lab_audio_env_def lab_audio_config_def lab_mic_def audio_init_def dict_get_def truthy_def
  py_int_def Let_def

lemmas lab_video_defs = start_recording_video_def video_writer_section_def
  video_start_handler_def lab_video_env_def lab_video_config_def video_init_def dict_get_def
  truthy_def Let_def

lemma lab_audio_armed_eq:
  "lab_audio_armed =
    (audio_init lab_audio_config)\<lparr>audio_p := Some Live, actual_channels := Some 1,
       actual_sample_rate := Some 44100, actual_sample_width := Some 3,
       audio_stream := Some Stopped, audio_frames := [],
       audio_filename := Some ''out/S1_audio_t.wav''\<rparr>"
  by (simp add: lab_audio_armed_def lab_audio_arm)

lemma lab_audio_start:
  "start_recording_audio lab_audio_env ''S1'' ''out'' None False (Some ''out/S1_audio_t.wav'')
     (audio_init lab_audio_config) =
   (Success,
    (audio_init lab_audio_config)\<lparr>audio_p := Some Live, actual_channels := Some 1,
       actual_sample_rate := Some 44100, actual_sample_width := Some 3,
       audio_stream := Some Active, audio_frames := [],
       audio_filename := Some ''out/S1_audio_t.wav'', a_recording := True\<rparr>,
    [PaInit, StreamOpen paInt24 1 44100 4410 0 True,
     Send (AudioStart ''S1'' (Some ''out/S1_audio_t.wav'') (strftime_coarse lab_time)
             (Some 1) (Some 44100) None)])"
  by (simp add: lab_audio_defs)

lemma lab_audio_recording_eq:
  "lab_audio_recording =
    (audio_init lab_audio_config)\<lparr>audio_p := Some Live, actual_channels := Some 1,
       actual_sample_rate := Some 44100, actual_sample_width := Some 3,
       audio_stream := Some Active, audio_frames := [],
       audio_filename := Some ''out/S1_audio_t.wav'', a_recording := True\<rparr>"
  by (simp add: lab_audio_recording_def lab_audio_start)

lemma lab_video_arm:
  "start_recording_video lab_video_env ''S1'' ''out'' None True (Some ''out/S1_video_t.mp4'')
     (video_init lab_video_config) =
   (Success,
    (video_init lab_video_config)\<lparr>video_capture := Some (Capture True),
       actual_fps := Some (IntN 24), video_filename := Some ''out/S1_video_t.mp4'',
       video_start_time := Some lab_time, video_writer := Some Writer\<rparr>,
    [CapOpen 0, WriterOpen ''out/S1_video_t.mp4'' (IntN 24)])"
  by (simp add: lab_video_defs)

lemma lab_video_armed_eq:
  "lab_video_armed =
    (video_init lab_video_config)\<lparr>video_capture := Some (Capture True),
       actual_fps := Some (IntN 24), video_filename := Some ''out/S1_video_t.mp4'',
       video_start_time := Some lab_time, video_writer := Some Writer\<rparr>"
  by (simp add: lab_video_armed_def lab_video_arm)

lemma lab_warm_up: "warm_up 10 [False, True] = True"
  by (simp add: numeral_eq_Suc)

lemma lab_video_start:
  "start_recording_video lab_video_env ''S1'' ''out'' None False (Some ''out/S1_video_t.mp4'')
     (video_init lab_video_config) =
   (Success,
    (video_init lab_video_config)\<lparr>video_capture := Some (Capture True),
       actual_fps := Some (IntN 24), video_filename := Some ''out/S1_video_t.mp4'',
       video_start_time := Some lab_time, video_writer := Some Writer,
       v_recording := True, thread_active := True, video_thread := Some Thread,
       exact_video_start := Some lab_time\<rparr>,
    [CapOpen 0, WriterOpen ''out/S1_video_t.mp4'' (IntN 24), WriterWrite,
     ThreadStart RecordingThread,
     Send (VideoStart ''S1'' (Some ''out/S1_video_t.mp4'') (strftime_coarse lab_time)
             (isoformat lab_time) (Some (IntN 24)))])"
  using lab_warm_up by (simp add: lab_video_defs)

lemma lab_video_recording_eq:
  "lab_video_recording =
    (video_init lab_video_config)\<lparr>video_capture := Some (Capture True),
       actual_fps := Some (IntN 24), video_filename := Some ''out/S1_video_t.mp4'',
       video_start_time := Some lab_time, video_writer := Some Writer,
       v_recording := True, thread_active := True, video_thread := Some Thread,
       exact_video_start := Some lab_time\<rparr>"
  by (simp add: lab_video_recording_def lab_video_start)

section \<open>start\_pre\_initialized and stop\_recording, case by case\<close>

lemma start_pre_initialized_audio_elim:
  assumes "start_pre_initialized_audio env subject_id s = (r, s', evs)"
  obtains
    (not_armed) "audio_stream s = None" "r = Failure NotArmed" "s' = s" "evs = []"
  | (raised) "audio_stream s \<noteq> None" "r = Raised" "s' = s" "evs = []"
  | (started) ws where "audio_stream s \<noteq> None" "audio_stream s \<noteq> Some Closed" "r = Success"
      "s' = s\<lparr>audio_stream := Some Active, a_recording := True\<rparr>"
      "evs = ws @ [Send (AudioStart subject_id (audio_filename s)
                     (strftime_coarse (ae_clock env 0)) (actual_channels s)
                     (actual_sample_rate s) (Some (isoformat (ae_clock env 0))))]"
      "markers_of ws = []"
  using assms
  by (auto simp: start_pre_initialized_audio_def split: option.splits if_splits)

lemma start_pre_initialized_video_elim:
  assumes "start_pre_initialized_video env subject_id s = (r, s', evs)"
  obtains
    (not_armed) "video_capture s = None" "r = Failure NotArmed" "s' = s" "evs = []"
  | (started) "video_capture s \<noteq> None" "r = Success"
      "s' = s\<lparr>v_recording := True, thread_active := True, video_thread := Some Thread\<rparr>"
      "evs = [ThreadStart RecordingThread,
              Send (VideoStart subject_id (video_filename s) (strftime_coarse (ve_clock env 0))
                      (isoformat (ve_clock env 0)) (actual_fps s))]"
  using assms
  by (auto simp: start_pre_initialized_video_def split: option.splits)

lemma stop_recording_audio_idle:
  "\<not> a_recording s \<Longrightarrow> stop_recording_audio env s = (Failure NotRecording, s, [])"
  by (simp add: stop_recording_audio_def)

lemma stop_recording_video_idle:
  "\<not> v_recording s \<Longrightarrow> stop_recording_video env s = (Failure NotRecording, s, [])"
  by (simp add: stop_recording_video_def)

lemma stop_recording_audio_recording:
  assumes "stop_recording_audio env s = (r, s', evs)" and "a_recording s"
  shows "\<not> a_recording s'" "audio_filename s' = audio_filename s"
    "markers_of evs = (if r = Success
       then [AudioStop (audio_filename s) (strftime_coarse (ae_clock env 0))] else [])"
  using assms
  by (auto simp: stop_recording_audio_def split: if_splits)

lemma stop_recording_video_recording:
  assumes "stop_recording_video env s = (r, s', evs)" and "v_recording s"
  shows "\<not> v_recording s'" "\<not> thread_active s'" "video_filename s' = video_filename s"
    "markers_of evs = (if r = Success
       then [VideoStop (video_filename s) (strftime_coarse (ve_clock env 0))] else [])"
  using assms
  by (auto simp: stop_recording_video_def Let_def split: if_splits)

section \<open>Finalize without streaming\<close>

text \<open>
  C5. On a session that is not recording, \<open>start_recording\<close> with
  \<open>pre_initialize=True\<close> (arm) followed by \<open>stop_recording\<close> (finalize), with no
  \<open>start_pre_initialized\<close> in between, makes \<open>stop_recording\<close> return \<open>False\<close> by
  its not-recording test, change nothing and send no marker. This holds for the audio
  and for the video recorder, for every device index and every environment, and
  whether arming succeeded or not.
\<close>

theorem arm_then_finalize_not_recording:
  "(\<not> a_recording s \<longrightarrow>
      (\<forall>r s' evs.
         start_recording_audio env subject_id destination device_index True filename s
           = (r, s', evs) \<longrightarrow>
         stop_recording_audio env' s' = (Failure NotRecording, s', []))) \<and>
   (\<not> v_recording v \<longrightarrow>
      (\<forall>r v' evs.
         start_recording_video venv subject_id destination vdevice_index True vfilename v
           = (r, v', evs) \<longrightarrow>
         stop_recording_video venv' v' = (Failure NotRecording, v', [])))"
proof (intro conjI impI allI)
  fix r s' evs
  assume idle: "\<not> a_recording s"
    and arm: "start_recording_audio env subject_id destination device_index True filename s
               = (r, s', evs)"
  from start_recording_audio_pre(1) [OF arm] idle have "\<not> a_recording s'" by simp
  then show "stop_recording_audio env' s' = (Failure NotRecording, s', [])"
    by (rule stop_recording_audio_idle)
next
  fix r v' evs
  assume idle: "\<not> v_recording v"
    and arm: "start_recording_video venv subject_id destination vdevice_index True vfilename v
               = (r, v', evs)"
  from start_recording_video_pre(1) [OF arm] idle have "\<not> v_recording v'" by simp
  then show "stop_recording_video venv' v' = (Failure NotRecording, v', [])"
    by (rule stop_recording_video_idle)
qed

theorem arm_then_finalize_not_recording_witness:
  "\<not> a_recording (audio_init lab_audio_config) \<and>
   stop_recording_audio lab_audio_env lab_audio_armed
     = (Failure NotRecording, lab_audio_armed, []) \<and>
   \<not> v_recording (video_init lab_video_config) \<and>
   stop_recording_video lab_video_env lab_video_armed
     = (Failure NotRecording, lab_video_armed, [])"
proof -
  note t = arm_then_finalize_not_recording
      [of "audio_init lab_audio_config" lab_audio_env "''S1''" "''out''" None
          "Some ''out/S1_audio_t.wav''" lab_audio_env "video_init lab_video_config"
          lab_video_env None "Some ''out/S1_video_t.mp4''" lab_video_env]
  have a0: "\<not> a_recording (audio_init lab_audio_config)"
    by (simp add: audio_init_def)
  have v0: "\<not> v_recording (video_init lab_video_config)"
    by (simp add: video_init_def)
  from t [THEN conjunct1, THEN mp, OF a0, rule_format, OF lab_audio_arm]
  have a1: "stop_recording_audio lab_audio_env lab_audio_armed
     = (Failure NotRecording, lab_audio_armed, [])"
    unfolding lab_audio_armed_eq .
  from t [THEN conjunct2, THEN mp, OF v0, rule_format, OF lab_video_arm]
  have v1: "stop_recording_video lab_video_env lab_video_armed
     = (Failure NotRecording, lab_video_armed, [])"
    unfolding lab_video_armed_eq .
  from a0 a1 v0 v1 show ?thesis by (intro conjI)
qed

section \<open>Finalizing a video recording\<close>

lemma stop_recording_video_success:
  assumes "stop_recording_video env s = (Success, s', evs)" and "v_recording s"
  shows "video_writer s' = None"
    "\<not> show_preview s \<Longrightarrow> video_capture s' = None"
    "show_preview s \<Longrightarrow> video_capture s' = video_capture s"
    "evs = (if video_thread s \<noteq> None then [ThreadJoin RecordingThread 5] else []) @
           (if video_writer s \<noteq> None then [WriterRelease] else []) @
           (if video_capture s \<noteq> None \<and> \<not> show_preview s then [CapRelease] else []) @
           [Send (VideoStop (video_filename s) (strftime_coarse (ve_clock env 0)))]"
  using assms
  by (auto simp: stop_recording_video_def Let_def split: if_splits)

lemma stop_recording_video_no_fault:
  "v_recording s \<Longrightarrow> ve_stop_raises env = None \<Longrightarrow> fst (stop_recording_video env s) = Success"
  by (simp add: stop_recording_video_def Let_def)

lemma stop_recording_video_thread_alive:
  "stop_recording_video (env\<lparr>ve_thread_alive := alive\<rparr>) s = stop_recording_video env s"
  by (simp add: stop_recording_video_def Let_def)

text \<open>
  C4. On a video recorder that is recording, a \<open>stop_recording\<close> that returns \<open>True\<close>
  has cleared both flags (the signal to the capture loop), joined the recording thread
  with a timeout of 5, released the writer, released the capture unless the preview is
  shown (then the capture is kept as it is), and sent the video stop marker for the
  recorder's file name, in this order; the recorder is left not recording, with no
  writer. Whether the thread is still alive after the join changes nothing: the call
  returns \<open>True\<close> whenever no release raises.
\<close>

theorem stop_recording_video_finalizes:
  "v_recording s \<longrightarrow>
     (\<forall>s' evs. stop_recording_video env s = (Success, s', evs) \<longrightarrow>
        \<not> v_recording s' \<and> \<not> thread_active s' \<and> video_writer s' = None \<and>
        (\<not> show_preview s \<longrightarrow> video_capture s' = None) \<and>
        (show_preview s \<longrightarrow> video_capture s' = video_capture s) \<and>
        evs = (if video_thread s \<noteq> None then [ThreadJoin RecordingThread 5] else []) @
              (if video_writer s \<noteq> None then [WriterRelease] else []) @
              (if video_capture s \<noteq> None \<and> \<not> show_preview s then [CapRelease] else []) @
              [Send (VideoStop (video_filename s) (strftime_coarse (ve_clock env 0)))]) \<and>
     (ve_stop_raises env = None \<longrightarrow> fst (stop_recording_video env s) = Success) \<and>
     stop_recording_video (env\<lparr>ve_thread_alive := alive\<rparr>) s = stop_recording_video env s"
proof (intro impI conjI allI)
  fix s' evs
  assume rec: "v_recording s" and stop: "stop_recording_video env s = (Success, s', evs)"
  from stop_recording_video_recording [OF stop rec]
  show "\<not> v_recording s'" "\<not> thread_active s'" by simp_all
  from stop_recording_video_success [OF stop rec]
  show "video_writer s' = None"
    and "evs = (if video_thread s \<noteq> None then [ThreadJoin RecordingThread 5] else []) @
              (if video_writer s \<noteq> None then [WriterRelease] else []) @
              (if video_capture s \<noteq> None \<and> \<not> show_preview s then [CapRelease] else []) @
              [Send (VideoStop (video_filename s) (strftime_coarse (ve_clock env 0)))]"
    by simp_all
  show "video_capture s' = None" if "\<not> show_preview s"
    using stop_recording_video_success(2) [OF stop rec] that by simp
  show "video_capture s' = video_capture s" if "show_preview s"
    using stop_recording_video_success(3) [OF stop rec] that by simp
next
  assume "v_recording s" and "ve_stop_raises env = None"
  then show "fst (stop_recording_video env s) = Success"
    by (rule stop_recording_video_no_fault)
next
  show "stop_recording_video (env\<lparr>ve_thread_alive := alive\<rparr>) s = stop_recording_video env s"
    by (rule stop_recording_video_thread_alive)
qed

lemma lab_video_stop:
  "stop_recording_video (lab_video_env\<lparr>ve_thread_alive := True\<rparr>) lab_video_recording =
     (Success,
      lab_video_recording\<lparr>thread_active := False, v_recording := False, video_writer := None,
         video_capture := None\<rparr>,
      [ThreadJoin RecordingThread 5, WriterRelease, CapRelease,
       Send (VideoStop (Some ''out/S1_video_t.mp4'') (strftime_coarse lab_time))])"
  by (simp add: lab_video_recording_eq stop_recording_video_def Let_def video_init_def
      lab_video_env_def)

theorem stop_recording_video_finalizes_witness:
  "v_recording lab_video_recording \<and>
   stop_recording_video (lab_video_env\<lparr>ve_thread_alive := True\<rparr>) lab_video_recording =
     (Success,
      lab_video_recording\<lparr>thread_active := False, v_recording := False, video_writer := None,
         video_capture := None\<rparr>,
      [ThreadJoin RecordingThread 5, WriterRelease, CapRelease,
       Send (VideoStop (Some ''out/S1_video_t.mp4'') (strftime_coarse lab_time))]) \<and>
   video_capture (lab_video_recording\<lparr>thread_active := False, v_recording := False,
      video_writer := None, video_capture := None\<rparr>) = None \<and>
   fst (stop_recording_video (lab_video_env\<lparr>ve_thread_alive := True\<rparr>) lab_video_recording)
     = Success"
proof -
  note t = stop_recording_video_finalizes
      [of lab_video_recording "lab_video_env\<lparr>ve_thread_alive := True\<rparr>" True]
  have rec: "v_recording lab_video_recording"
    by (simp add: lab_video_recording_eq)
  have quiet: "\<not> show_preview lab_video_recording"
    by (simp add: lab_video_recording_eq video_init_def)
  have nofault: "ve_stop_raises (lab_video_env\<lparr>ve_thread_alive := True\<rparr>) = None"
    by (simp add: lab_video_env_def)
  from t rec have
    "\<forall>s' evs. stop_recording_video (lab_video_env\<lparr>ve_thread_alive := True\<rparr>)
        lab_video_recording = (Success, s', evs) \<longrightarrow>
      (\<not> show_preview lab_video_recording \<longrightarrow> video_capture s' = None)"
    by blast
  from this [rule_format, OF lab_video_stop quiet]
  have released: "video_capture (lab_video_recording\<lparr>thread_active := False,
      v_recording := False, video_writer := None, video_capture := None\<rparr>) = None" .
  from t rec nofault
  have ok: "fst (stop_recording_video (lab_video_env\<lparr>ve_thread_alive := True\<rparr>)
      lab_video_recording) = Success"
    by blast
  from rec lab_video_stop released ok show ?thesis by (intro conjI)
qed

section \<open>Start and stop markers of one session\<close>

lemma preview_keeps:
  "v_recording (fst (snd (start_preview env s))) = v_recording s"
  "video_filename (fst (snd (start_preview env s))) = video_filename s"
  "markers_of (snd (snd (start_preview env s))) = []"
  "v_recording (fst (snd (stop_preview env s))) = v_recording s"
  "video_filename (fst (snd (stop_preview env s))) = video_filename s"
  "markers_of (snd (snd (stop_preview env s))) = []"
  by (simp_all add: start_preview_def stop_preview_def Let_def)

lemma toggle_preview_step:
  "snd (toggle_preview env s) =
     snd (if show_preview s then stop_preview env s else start_preview env s)"
  by (simp add: toggle_preview_def split: prod.split)

lemma toggle_preview_keeps:
  "v_recording (fst (snd (toggle_preview env s))) = v_recording s"
  "video_filename (fst (snd (toggle_preview env s))) = video_filename s"
  "markers_of (snd (snd (toggle_preview env s))) = []"
  by (simp_all add: toggle_preview_step preview_keeps)

text \<open>
  One step of an audio session keeps the invariant: while the recorder is recording,
  its file name is among the start markers not yet used by a stop marker.
\<close>

lemma audio_step_matched:
  assumes step: "audio_step op s = (s', evs)"
    and inv: "a_recording s \<longrightarrow> audio_filename s \<in> set p"
  shows "\<exists>q. (\<forall>ms. stops_matched p (markers_of evs @ ms) = stops_matched q ms) \<and>
             (a_recording s' \<longrightarrow> audio_filename s' \<in> set q)"
proof (cases op)
  case (AStartRecording env subject_id destination device_index pre filename)
  obtain r where call:
    "start_recording_audio env subject_id destination device_index pre filename s = (r, s', evs)"
    using step AStartRecording
    by (cases "start_recording_audio env subject_id destination device_index pre filename s") simp
  show ?thesis
  proof (cases "a_recording s")
    case True
    with call have "s' = s" "evs = []"
      by (simp_all add: start_recording_audio_already_recording)
    with inv show ?thesis by (intro exI [of _ p]) simp
  next
    case idle: False
    show ?thesis
    proof (cases "r = Success \<and> \<not> pre")
      case True
      with call have call': "start_recording_audio env subject_id destination device_index
          False filename s = (Success, s', evs)" by simp
      from start_recording_audio_started(3) [OF call'] obtain ts where
        "markers_of evs = [AudioStart subject_id (audio_filename s') ts (actual_channels s')
           (actual_sample_rate s') None]" by blast
      then show ?thesis by (intro exI [of _ "audio_filename s' # p"]) simp
    next
      case no_start: False
      have "a_recording s' = a_recording s \<and> markers_of evs = []"
      proof (cases pre)
        case True
        with call have "start_recording_audio env subject_id destination device_index True
            filename s = (r, s', evs)" by simp
        from start_recording_audio_pre [OF this] show ?thesis by simp
      next
        case False
        with no_start have "r \<noteq> Success" by simp
        with start_recording_audio_failed [OF call] show ?thesis by simp
      qed
      with idle show ?thesis by (intro exI [of _ p]) simp
    qed
  qed
next
  case (AStartPreInitialized env subject_id)
  obtain r where call: "start_pre_initialized_audio env subject_id s = (r, s', evs)"
    using step AStartPreInitialized
    by (cases "start_pre_initialized_audio env subject_id s") simp
  from call show ?thesis
  proof (cases rule: start_pre_initialized_audio_elim)
    case not_armed
    with inv show ?thesis by (intro exI [of _ p]) simp
  next
    case raised
    with inv show ?thesis by (intro exI [of _ p]) simp
  next
    case (started ws)
    then show ?thesis by (intro exI [of _ "audio_filename s # p"]) simp
  qed
next
  case (AStopRecording env)
  obtain r where call: "stop_recording_audio env s = (r, s', evs)"
    using step AStopRecording by (cases "stop_recording_audio env s") simp
  show ?thesis
  proof (cases "a_recording s")
    case False
    with call have "s' = s" "evs = []" by (simp_all add: stop_recording_audio_idle)
    with inv show ?thesis by (intro exI [of _ p]) simp
  next
    case True
    note facts = stop_recording_audio_recording [OF call True]
    show ?thesis
    proof (cases "r = Success")
      case True
      with facts inv \<open>a_recording s\<close> show ?thesis
        by (intro exI [of _ "remove1 (audio_filename s) p"]) simp
    next
      case False
      with facts show ?thesis by (intro exI [of _ p]) simp
    qed
  qed
next
  case (ACallback in_data)
  with step inv show ?thesis
    by (intro exI [of _ p]) (auto simp: audio_callback_def)
qed

lemma audio_run_matched:
  "audio_run ops s = (s', evs) \<Longrightarrow> (a_recording s \<longrightarrow> audio_filename s \<in> set p) \<Longrightarrow>
   stops_matched p (markers_of evs)"
proof (induction ops arbitrary: s p s' evs)
  case Nil
  then show ?case by simp
next
  case (Cons op ops)
  obtain s1 evs1 where step: "audio_step op s = (s1, evs1)"
    by (cases "audio_step op s") simp
  obtain s2 evs2 where rest: "audio_run ops s1 = (s2, evs2)"
    by (cases "audio_run ops s1") simp
  from Cons.prems(1) step rest have evs: "evs = evs1 @ evs2" by simp
  from audio_step_matched [OF step Cons.prems(2)] obtain q where
    q: "\<forall>ms. stops_matched p (markers_of evs1 @ ms) = stops_matched q ms"
      "a_recording s1 \<longrightarrow> audio_filename s1 \<in> set q" by blast
  from Cons.IH [OF rest q(2)] have "stops_matched q (markers_of evs2)" .
  with q(1) evs show ?case by simp
qed

lemma start_recording_video_already_recording:
  "v_recording s \<Longrightarrow>
   start_recording_video env subject_id destination device_index False filename s =
     (Failure AlreadyRecording, s, [])"
  by (simp add: start_recording_video_def)

text \<open>
  What one step of a video session does to the recording flag, the file name and the
  markers. Only \<open>start_recording\<close> with \<open>pre_initialize=True\<close> on a recording
  recorder can change the file name while the recorder is recording.
\<close>

lemma video_step_shape:
  assumes step: "video_step op s = (s', evs)"
  obtains
    (quiet) "markers_of evs = []" "v_recording s' = v_recording s"
      "video_filename s' = video_filename s \<or> \<not> v_recording s \<or>
       (\<exists>env subject_id destination device_index filename.
          op = VStartRecording env subject_id destination device_index True filename)"
  | (start) subject_id ts it fps where
      "markers_of evs = [VideoStart subject_id (video_filename s') ts it fps]" "v_recording s'"
  | (stop) ts where "markers_of evs = [VideoStop (video_filename s) ts]" "v_recording s"
      "\<not> v_recording s'"
  | (abort) "markers_of evs = []" "\<not> v_recording s'"
proof (cases op)
  case (VStartRecording env subject_id destination device_index pre filename)
  obtain r where call:
    "start_recording_video env subject_id destination device_index pre filename s = (r, s', evs)"
    using step VStartRecording
    by (cases "start_recording_video env subject_id destination device_index pre filename s") simp
  show ?thesis
  proof (cases pre)
    case True
    with call have "start_recording_video env subject_id destination device_index True
        filename s = (r, s', evs)" by simp
    from start_recording_video_pre [OF this] VStartRecording True show ?thesis
      by (intro quiet) simp_all
  next
    case direct: False
    show ?thesis
    proof (cases "v_recording s")
      case True
      with call direct have "s' = s" "evs = []"
        by (simp_all add: start_recording_video_already_recording)
      then show ?thesis by (intro quiet) simp_all
    next
      case idle: False
      show ?thesis
      proof (cases "r = Success")
        case True
        with call direct have "start_recording_video env subject_id destination device_index
            False filename s = (Success, s', evs)" by simp
        from start_recording_video_started [OF this] obtain ts it where
          "markers_of evs = [VideoStart subject_id (video_filename s') ts it (actual_fps s')]"
          "v_recording s'" by blast
        then show ?thesis by (rule start)
      next
        case False
        from start_recording_video_failed [OF call False] idle show ?thesis
          by (intro quiet) simp_all
      qed
    qed
  qed
next
  case (VStartPreInitialized env subject_id)
  obtain r where call: "start_pre_initialized_video env subject_id s = (r, s', evs)"
    using step VStartPreInitialized
    by (cases "start_pre_initialized_video env subject_id s") simp
  from call show ?thesis
  proof (cases rule: start_pre_initialized_video_elim)
    case not_armed
    then show ?thesis by (intro quiet) simp_all
  next
    case started
    then show ?thesis
      by (intro start [of subject_id "strftime_coarse (ve_clock env 0)"
            "isoformat (ve_clock env 0)" "actual_fps s"]) simp_all
  qed
next
  case (VStopRecording env)
  obtain r where call: "stop_recording_video env s = (r, s', evs)"
    using step VStopRecording by (cases "stop_recording_video env s") simp
  show ?thesis
  proof (cases "v_recording s")
    case False
    with call have "s' = s" "evs = []" by (simp_all add: stop_recording_video_idle)
    then show ?thesis by (intro quiet) simp_all
  next
    case True
    note facts = stop_recording_video_recording [OF call True]
    show ?thesis
    proof (cases "r = Success")
      case True
      with facts \<open>v_recording s\<close> show ?thesis
        by (intro stop [of "strftime_coarse (ve_clock env 0)"]) simp_all
    next
      case False
      with facts show ?thesis by (intro abort) simp_all
    qed
  qed
next
  case (VStartPreview env)
  with step have "s' = fst (snd (start_preview env s))" "evs = snd (snd (start_preview env s))"
    by simp_all
  then show ?thesis by (intro quiet) (simp_all add: preview_keeps)
next
  case (VStopPreview env)
  with step have "s' = fst (snd (stop_preview env s))" "evs = snd (snd (stop_preview env s))"
    by simp_all
  then show ?thesis by (intro quiet) (simp_all add: preview_keeps)
next
  case (VTogglePreview env)
  with step have "s' = fst (snd (toggle_preview env s))" "evs = snd (snd (toggle_preview env s))"
    by simp_all
  then show ?thesis by (intro quiet) (simp_all add: toggle_preview_keeps)
qed

lemma video_step_matched:
  assumes step: "video_step op s = (s', evs)"
    and inv: "v_recording s \<longrightarrow> video_filename s \<in> set p"
    and guard: "no_arm_while_recording [op] s"
  shows "\<exists>q. (\<forall>ms. stops_matched p (markers_of evs @ ms) = stops_matched q ms) \<and>
             (v_recording s' \<longrightarrow> video_filename s' \<in> set q)"
  using step
proof (cases rule: video_step_shape)
  case quiet
  from quiet(3) guard have "video_filename s' = video_filename s \<or> \<not> v_recording s"
    by auto
  with quiet(1,2) inv show ?thesis by (intro exI [of _ p]) auto
next
  case (start subject_id ts it fps)
  then show ?thesis by (intro exI [of _ "video_filename s' # p"]) simp
next
  case (stop ts)
  with inv show ?thesis by (intro exI [of _ "remove1 (video_filename s) p"]) simp
next
  case abort
  then show ?thesis by (intro exI [of _ p]) simp
qed

lemma video_step_counted:
  assumes step: "video_step op s = (s', evs)"
    and inv: "v_recording s \<longrightarrow> 0 < n"
  shows "\<exists>k. (\<forall>ms. stops_counted n (markers_of evs @ ms) = stops_counted k ms) \<and>
             (v_recording s' \<longrightarrow> 0 < k)"
  using step
proof (cases rule: video_step_shape)
  case quiet
  with inv show ?thesis by (intro exI [of _ n]) simp
next
  case (start subject_id ts it fps)
  then show ?thesis by (intro exI [of _ "Suc n"]) simp
next
  case (stop ts)
  with inv show ?thesis by (intro exI [of _ "n - 1"]) simp
next
  case abort
  then show ?thesis by (intro exI [of _ n]) simp
qed

lemma video_run_matched:
  "video_run ops s = (s', evs) \<Longrightarrow> (v_recording s \<longrightarrow> video_filename s \<in> set p) \<Longrightarrow>
   no_arm_while_recording ops s \<Longrightarrow> stops_matched p (markers_of evs)"
proof (induction ops arbitrary: s p s' evs)
  case Nil
  then show ?case by simp
next
  case (Cons op ops)
  obtain s1 evs1 where step: "video_step op s = (s1, evs1)"
    by (cases "video_step op s") simp
  obtain s2 evs2 where rest: "video_run ops s1 = (s2, evs2)"
    by (cases "video_run ops s1") simp
  from Cons.prems(1) step rest have evs: "evs = evs1 @ evs2" by simp
  from Cons.prems(3) step have guard: "no_arm_while_recording [op] s"
    and later: "no_arm_while_recording ops s1" by simp_all
  from video_step_matched [OF step Cons.prems(2) guard] obtain q where
    q: "\<forall>ms. stops_matched p (markers_of evs1 @ ms) = stops_matched q ms"
      "v_recording s1 \<longrightarrow> video_filename s1 \<in> set q" by blast
  from Cons.IH [OF rest q(2) later] have "stops_matched q (markers_of evs2)" .
  with q(1) evs show ?case by simp
qed

lemma video_run_counted:
  "video_run ops s = (s', evs) \<Longrightarrow> (v_recording s \<longrightarrow> 0 < n) \<Longrightarrow>
   stops_counted n (markers_of evs)"
proof (induction ops arbitrary: s n s' evs)
  case Nil
  then show ?case by simp
next
  case (Cons op ops)
  obtain s1 evs1 where step: "video_step op s = (s1, evs1)"
    by (cases "video_step op s") simp
  obtain s2 evs2 where rest: "video_run ops s1 = (s2, evs2)"
    by (cases "video_run ops s1") simp
  from Cons.prems(1) step rest have evs: "evs = evs1 @ evs2" by simp
  from video_step_counted [OF step Cons.prems(2)] obtain k where
    k: "\<forall>ms. stops_counted n (markers_of evs1 @ ms) = stops_counted k ms"
      "v_recording s1 \<longrightarrow> 0 < k" by blast
  from Cons.IH [OF rest k(2)] have "stops_counted k (markers_of evs2)" .
  with k(1) evs show ?case by simp
qed

text \<open>
  What the markers of one session do satisfy on the code. In every sequence of public
  operations on an audio recorder, starting from the initial state, every stop marker
  uses up one earlier start marker of the same file name that no other stop marker has
  used. On a video recorder this is so as long as \<open>start_recording\<close> with
  \<open>pre_initialize=True\<close> is not called while the recorder is recording; and in every
  sequence on a video recorder every stop marker uses up one earlier start marker of
  whatever file name.
\<close>

theorem stop_markers_matched:
  "stops_matched [] (markers_of (snd (audio_run ops (audio_init aconfig)))) \<and>
   (no_arm_while_recording vops (video_init vconfig) \<longrightarrow>
      stops_matched [] (markers_of (snd (video_run vops (video_init vconfig))))) \<and>
   stops_counted 0 (markers_of (snd (video_run vops (video_init vconfig))))"
proof (intro conjI impI)
  have a0: "a_recording (audio_init aconfig) \<longrightarrow> audio_filename (audio_init aconfig) \<in> set []"
    by (simp add: audio_init_def)
  obtain s' evs where run: "audio_run ops (audio_init aconfig) = (s', evs)"
    by (cases "audio_run ops (audio_init aconfig)") simp
  from audio_run_matched [OF run a0] run
  show "stops_matched [] (markers_of (snd (audio_run ops (audio_init aconfig))))" by simp
next
  obtain v' evs where run: "video_run vops (video_init vconfig) = (v', evs)"
    by (cases "video_run vops (video_init vconfig)") simp
  have v0: "v_recording (video_init vconfig) \<longrightarrow> video_filename (video_init vconfig) \<in> set []"
    by (simp add: video_init_def)
  have n0: "v_recording (video_init vconfig) \<longrightarrow> 0 < (0::nat)"
    by (simp add: video_init_def)
  from video_run_counted [OF run n0] run
  show "stops_counted 0 (markers_of (snd (video_run vops (video_init vconfig))))" by simp
  assume "no_arm_while_recording vops (video_init vconfig)"
  from video_run_matched [OF run v0 this] run
  show "stops_matched [] (markers_of (snd (video_run vops (video_init vconfig))))" by simp
qed

lemma lab_video_session_guard:
  "no_arm_while_recording lab_video_session (video_init lab_video_config)"
  by (simp add: lab_video_session_def video_init_def)

lemma lab_video_begin:
  "start_pre_initialized_video lab_video_env ''S1'' lab_video_armed =
     (Success,
      lab_video_armed\<lparr>v_recording := True, thread_active := True, video_thread := Some Thread\<rparr>,
      [ThreadStart RecordingThread,
       Send (VideoStart ''S1'' (Some ''out/S1_video_t.mp4'') (strftime_coarse lab_time)
               (isoformat lab_time) (Some (IntN 24)))])"
  by (simp add: start_pre_initialized_video_def lab_video_armed_eq lab_video_env_def)

lemma lab_video_session_markers:
  "markers_of (snd (video_run lab_video_session (video_init lab_video_config))) =
     [VideoStart ''S1'' (Some ''out/S1_video_t.mp4'') (strftime_coarse lab_time)
        (isoformat lab_time) (Some (IntN 24)),
      VideoStop (Some ''out/S1_video_t.mp4'') (strftime_coarse lab_time)]"
  by (simp add: lab_video_session_def lab_video_arm lab_video_armed_eq [symmetric] lab_video_begin
      stop_recording_video_def Let_def)
     (simp add: lab_video_armed_eq lab_video_env_def)

theorem stop_markers_matched_witness:
  "no_arm_while_recording lab_video_session (video_init lab_video_config) \<and>
   stops_matched [] (markers_of (snd (video_run lab_video_session (video_init lab_video_config)))) \<and>
   markers_of (snd (video_run lab_video_session (video_init lab_video_config))) =
     [VideoStart ''S1'' (Some ''out/S1_video_t.mp4'') (strftime_coarse lab_time)
        (isoformat lab_time) (Some (IntN 24)),
      VideoStop (Some ''out/S1_video_t.mp4'') (strftime_coarse lab_time)] \<and>
   stops_matched [] (markers_of (snd (audio_run lab_audio_session (audio_init lab_audio_config))))"
proof -
  note t = stop_markers_matched [of lab_audio_session lab_audio_config lab_video_session
      lab_video_config]
  from t [THEN conjunct2, THEN conjunct1, THEN mp, OF lab_video_session_guard]
  have v: "stops_matched []
      (markers_of (snd (video_run lab_video_session (video_init lab_video_config))))" .
  from t [THEN conjunct1]
  have a: "stops_matched []
      (markers_of (snd (audio_run lab_audio_session (audio_init lab_audio_config))))" .
  from lab_video_session_guard v lab_video_session_markers a show ?thesis
    by (intro conjI)
qed

lemma lab_video_rearm:
  "start_recording_video lab_video_env ''S1'' ''out'' None True (Some ''out/other.mp4'')
     lab_video_recording =
   (Success, lab_video_recording\<lparr>video_filename := Some ''out/other.mp4''\<rparr>,
    [WriterOpen ''out/other.mp4'' (IntN 24)])"
  by (simp add: lab_video_recording_eq lab_video_defs)

lemma lab_video_rearmed_stop:
  "stop_recording_video lab_video_env (lab_video_recording\<lparr>video_filename := Some ''out/other.mp4''\<rparr>)
   = (Success,
      lab_video_recording\<lparr>video_filename := Some ''out/other.mp4'', thread_active := False,
         v_recording := False, video_writer := None, video_capture := None\<rparr>,
      [ThreadJoin RecordingThread 5, WriterRelease, CapRelease,
       Send (VideoStop (Some ''out/other.mp4'') (strftime_coarse lab_time))])"
  by (simp add: lab_video_recording_eq stop_recording_video_def Let_def video_init_def
      lab_video_env_def)

lemma lab_video_rearmed_markers:
  "markers_of (snd (video_run lab_video_rearmed_session (video_init lab_video_config))) =
     [VideoStart ''S1'' (Some ''out/S1_video_t.mp4'') (strftime_coarse lab_time)
        (isoformat lab_time) (Some (IntN 24)),
      VideoStop (Some ''out/other.mp4'') (strftime_coarse lab_time)]"
  by (simp add: lab_video_rearmed_session_def lab_video_start lab_video_recording_eq [symmetric]
      lab_video_rearm lab_video_rearmed_stop)

text \<open>
  C3, at a sequence of three calls on a fresh video recorder: \<open>start_recording\<close> on
  one file name, \<open>start_recording\<close> with \<open>pre_initialize=True\<close> on another file
  name, \<open>stop_recording\<close>. The second call is let through while the recorder is
  recording (the test of line 93 exempts \<open>pre_initialize\<close>, unlike the audio
  recorder's) and reassigns \<open>video_filename\<close>; the stop marker then carries the second
  file name, for which no start marker was sent.
\<close>

theorem stop_marker_for_unstarted_filename:
  "markers_of (snd (video_run lab_video_rearmed_session (video_init lab_video_config))) =
     [VideoStart ''S1'' (Some ''out/S1_video_t.mp4'') (strftime_coarse lab_time)
        (isoformat lab_time) (Some (IntN 24)),
      VideoStop (Some ''out/other.mp4'') (strftime_coarse lab_time)] \<and>
   \<not> stops_matched []
       (markers_of (snd (video_run lab_video_rearmed_session (video_init lab_video_config))))"
  by (simp add: lab_video_rearmed_markers)

section \<open>The joint start\<close>

lemma os_path_join_nonempty: "b \<noteq> [] \<Longrightarrow> os_path_join a b \<noteq> []"
  by (simp add: os_path_join_def)

lemma sync_filenames_truthy:
  "truthy (Some (sync_audio_filename c subject_id destination ts))"
  "truthy (Some (sync_video_filename c subject_id destination ts))"
  by (simp_all add: truthy_def sync_audio_filename_def sync_video_filename_def
      os_path_join_nonempty)

lemma lab_audio_arm_named:
  "truthy (Some f) \<Longrightarrow>
   start_recording_audio lab_audio_env ''S1'' ''out'' None True (Some f)
     (audio_init lab_audio_config) =
   (Success,
    (audio_init lab_audio_config)\<lparr>audio_p := Some Live, actual_channels := Some 1,
       actual_sample_rate := Some 44100, actual_sample_width := Some 3,
       audio_stream := Some Stopped, audio_frames := [], audio_filename := Some f\<rparr>,
    [PaInit, StreamOpen paInt24 1 44100 4410 0 False])"
  by (simp add: lab_audio_defs)

lemma lab_audio_arm_no_mic:
  "start_recording_audio (lab_audio_env\<lparr>ae_devices := []\<rparr>) ''S1'' ''out'' None True (Some f)
     (audio_init lab_audio_config) =
   (Failure DeviceNotFound, audio_init lab_audio_config, [PaInit, PaTerminate])"
  by (simp add: lab_audio_defs)

lemma lab_video_arm_named:
  "truthy (Some f) \<Longrightarrow>
   start_recording_video lab_video_env ''S1'' ''out'' None True (Some f)
     (video_init lab_video_config) =
   (Success,
    (video_init lab_video_config)\<lparr>video_capture := Some (Capture True),
       actual_fps := Some (IntN 24), video_filename := Some f,
       video_start_time := Some lab_time, video_writer := Some Writer\<rparr>,
    [CapOpen 0, WriterOpen f (IntN 24)])"
  by (simp add: lab_video_defs)

lemma lab_video_arm_no_camera:
  "start_recording_video (lab_video_env\<lparr>ve_camera_opens := False\<rparr>) ''S1'' ''out'' None True
     (Some f) (video_init lab_video_config) =
   (Failure DeviceOpenError,
    (video_init lab_video_config)\<lparr>video_capture := Some (Capture False)\<rparr>, [CapOpen 0])"
  by (simp add: lab_video_defs)

lemma lab_both_no_camera:
  "start_both_recordings lab_both_env_no_camera ''S1'' ''out'' None None lab_core =
   (Success,
    lab_core\<lparr>
      audio_recorder :=
        (audio_init lab_audio_config)\<lparr>audio_p := Some Live, actual_channels := Some 1,
           actual_sample_rate := Some 44100, actual_sample_width := Some 3,
           audio_stream := Some Active, audio_frames := [],
           audio_filename := Some (sync_audio_filename lab_core_config ''S1'' ''out''
                                     (strftime_coarse lab_time)),
           a_recording := True\<rparr>,
      video_recorder :=
        (video_init lab_video_config)\<lparr>video_capture := Some (Capture False),
           v_recording := True, thread_active := True, video_thread := Some Thread\<rparr>\<rparr>,
    [PaInit, StreamOpen paInt24 1 44100 4410 0 False, CapOpen 0, StreamStart,
     Send (AudioStart ''S1'' (Some (sync_audio_filename lab_core_config ''S1'' ''out''
                                      (strftime_coarse lab_time)))
             (strftime_coarse lab_time) (Some 1) (Some 44100) (Some (isoformat lab_time))),
     ThreadStart RecordingThread,
     Send (VideoStart ''S1'' None (strftime_coarse lab_time) (isoformat lab_time) None)])"
  by (simp add: start_both_recordings_def lab_both_env_no_camera_def lab_both_env_def
      lab_core_def core_init_def recording_audio_def recording_video_def Let_def
      lab_audio_arm_named lab_video_arm_no_camera sync_filenames_truthy
      start_pre_initialized_audio_def start_pre_initialized_video_def)
     (simp add: audio_init_def video_init_def lab_audio_env_def lab_video_env_def)

lemma lab_both_no_mic:
  "start_both_recordings lab_both_env_no_mic ''S1'' ''out'' None None lab_core =
   (Failure NotArmed,
    lab_core\<lparr>
      video_recorder :=
        (video_init lab_video_config)\<lparr>video_capture := Some (Capture True),
           actual_fps := Some (IntN 24),
           video_filename := Some (sync_video_filename lab_core_config ''S1'' ''out''
                                     (strftime_coarse lab_time)),
           video_start_time := Some lab_time, video_writer := Some Writer,
           v_recording := True, thread_active := True, video_thread := Some Thread\<rparr>\<rparr>,
    [PaInit, PaTerminate, CapOpen 0,
     WriterOpen (sync_video_filename lab_core_config ''S1'' ''out'' (strftime_coarse lab_time))
       (IntN 24),
     ThreadStart RecordingThread,
     Send (VideoStart ''S1'' (Some (sync_video_filename lab_core_config ''S1'' ''out''
                                      (strftime_coarse lab_time)))
             (strftime_coarse lab_time) (isoformat lab_time) (Some (IntN 24)))])"
  by (simp add: start_both_recordings_def lab_both_env_no_mic_def lab_both_env_def
      lab_core_def core_init_def recording_audio_def recording_video_def Let_def
      lab_audio_arm_no_mic lab_video_arm_named sync_filenames_truthy
      start_pre_initialized_audio_def start_pre_initialized_video_def)
     (simp add: audio_init_def video_init_def lab_audio_env_def lab_video_env_def
        start_pre_initialized_video_def)

text \<open>
  C1, at two inputs. With a camera that cannot be opened, the pre-initializing call of
  the video recorder returns \<open>False\<close>; \<open>start_both_recordings\<close> goes on, both
  \<open>start_pre_initialized\<close> calls return \<open>True\<close> (the video recorder holds the
  unopened capture object, which is not \<open>None\<close>), both recorders are recording, the
  video start marker carries the file name \<open>None\<close>, and the method returns \<open>True\<close>.
  With no audio input device, the pre-initializing call of the audio recorder returns
  \<open>False\<close>, the audio recorder does not start, the video recorder starts all the same
  and stays recording, and the method returns \<open>False\<close>.
\<close>

theorem joint_start_streams_after_failed_arm:
  "video_arm_result lab_both_env_no_camera ''S1'' ''out'' None lab_core
     = Failure DeviceOpenError \<and>
   fst (start_both_recordings lab_both_env_no_camera ''S1'' ''out'' None None lab_core)
     = Success \<and>
   a_recording (audio_recorder (fst (snd
     (start_both_recordings lab_both_env_no_camera ''S1'' ''out'' None None lab_core)))) \<and>
   v_recording (video_recorder (fst (snd
     (start_both_recordings lab_both_env_no_camera ''S1'' ''out'' None None lab_core)))) \<and>
   video_capture (video_recorder (fst (snd
     (start_both_recordings lab_both_env_no_camera ''S1'' ''out'' None None lab_core))))
     = Some (Capture False) \<and>
   markers_of (snd (snd
     (start_both_recordings lab_both_env_no_camera ''S1'' ''out'' None None lab_core))) =
     [AudioStart ''S1'' (Some (sync_audio_filename lab_core_config ''S1'' ''out''
                                 (strftime_coarse lab_time)))
        (strftime_coarse lab_time) (Some 1) (Some 44100) (Some (isoformat lab_time)),
      VideoStart ''S1'' None (strftime_coarse lab_time) (isoformat lab_time) None] \<and>
   audio_arm_result lab_both_env_no_mic ''S1'' ''out'' None lab_core
     = Failure DeviceNotFound \<and>
   fst (start_both_recordings lab_both_env_no_mic ''S1'' ''out'' None None lab_core)
     = Failure NotArmed \<and>
   \<not> a_recording (audio_recorder (fst (snd
     (start_both_recordings lab_both_env_no_mic ''S1'' ''out'' None None lab_core)))) \<and>
   v_recording (video_recorder (fst (snd
     (start_both_recordings lab_both_env_no_mic ''S1'' ''out'' None None lab_core))))"
proof -
  have "video_arm_result lab_both_env_no_camera ''S1'' ''out'' None lab_core
      = Failure DeviceOpenError"
    by (simp add: video_arm_result_def lab_both_env_no_camera_def lab_both_env_def lab_core_def
        core_init_def lab_video_arm_no_camera)
  moreover have "audio_arm_result lab_both_env_no_mic ''S1'' ''out'' None lab_core
      = Failure DeviceNotFound"
    by (simp add: audio_arm_result_def lab_both_env_no_mic_def lab_both_env_def lab_core_def
        core_init_def lab_audio_arm_no_mic)
  moreover have "\<not> a_recording (audio_recorder lab_core)"
    by (simp add: lab_core_def core_init_def audio_init_def)
  ultimately show ?thesis
    by (simp add: lab_both_no_camera lab_both_no_mic)
qed

section \<open>Starting a pre-initialized recording twice\<close>

lemma lab_audio_begin:
  "start_pre_initialized_audio lab_audio_env ''S1'' lab_audio_armed =
     (Success, lab_audio_armed\<lparr>audio_stream := Some Active, a_recording := True\<rparr>,
      [StreamStart,
       Send (AudioStart ''S1'' (Some ''out/S1_audio_t.wav'') (strftime_coarse lab_time)
               (Some 1) (Some 44100) (Some (isoformat lab_time)))])"
  by (simp add: start_pre_initialized_audio_def lab_audio_armed_eq lab_audio_env_def)

lemma lab_audio_begin_again:
  "start_pre_initialized_audio lab_audio_env ''S1''
     (lab_audio_armed\<lparr>audio_stream := Some Active, a_recording := True\<rparr>) =
     (Success, lab_audio_armed\<lparr>audio_stream := Some Active, a_recording := True\<rparr>,
      [Send (AudioStart ''S1'' (Some ''out/S1_audio_t.wav'') (strftime_coarse lab_time)
               (Some 1) (Some 44100) (Some (isoformat lab_time)))])"
  by (simp add: start_pre_initialized_audio_def lab_audio_armed_eq lab_audio_env_def)

lemma lab_video_begin_again:
  "start_pre_initialized_video lab_video_env ''S1''
     (lab_video_armed\<lparr>v_recording := True, thread_active := True, video_thread := Some Thread\<rparr>) =
     (Success,
      lab_video_armed\<lparr>v_recording := True, thread_active := True, video_thread := Some Thread\<rparr>,
      [ThreadStart RecordingThread,
       Send (VideoStart ''S1'' (Some ''out/S1_video_t.mp4'') (strftime_coarse lab_time)
               (isoformat lab_time) (Some (IntN 24)))])"
  by (simp add: start_pre_initialized_video_def lab_video_armed_eq lab_video_env_def)

lemma lab_video_begin_unarmed:
  "fst (start_pre_initialized_video lab_video_env ''S1''
     ((video_init lab_video_config)\<lparr>video_capture := Some (Capture False)\<rparr>)) = Success"
  by (simp add: start_pre_initialized_video_def)

text \<open>
  C2, at an armed recorder of each kind. \<open>start_pre_initialized\<close> tests only that the
  stream (the capture) is not \<open>None\<close>. Called twice in a row on the armed video
  recorder it returns \<open>True\<close> both times, starts a second recording thread and sends a
  second start marker; on the armed audio recorder it returns \<open>True\<close> both times and
  sends a second start marker. It also returns \<open>True\<close> on a video recorder that was
  never armed but holds the capture of a failed \<open>start_recording\<close>.
\<close>

theorem start_pre_initialized_twice:
  "start_pre_initialized_video lab_video_env ''S1'' lab_video_armed =
     (Success,
      lab_video_armed\<lparr>v_recording := True, thread_active := True, video_thread := Some Thread\<rparr>,
      [ThreadStart RecordingThread,
       Send (VideoStart ''S1'' (Some ''out/S1_video_t.mp4'') (strftime_coarse lab_time)
               (isoformat lab_time) (Some (IntN 24)))]) \<and>
   start_pre_initialized_video lab_video_env ''S1''
     (lab_video_armed\<lparr>v_recording := True, thread_active := True, video_thread := Some Thread\<rparr>) =
     (Success,
      lab_video_armed\<lparr>v_recording := True, thread_active := True, video_thread := Some Thread\<rparr>,
      [ThreadStart RecordingThread,
       Send (VideoStart ''S1'' (Some ''out/S1_video_t.mp4'') (strftime_coarse lab_time)
               (isoformat lab_time) (Some (IntN 24)))]) \<and>
   fst (start_pre_initialized_audio lab_audio_env ''S1'' lab_audio_armed) = Success \<and>
   fst (start_pre_initialized_audio lab_audio_env ''S1''
     (fst (snd (start_pre_initialized_audio lab_audio_env ''S1'' lab_audio_armed)))) = Success \<and>
   fst (start_pre_initialized_video lab_video_env ''S1''
     (fst (snd (start_recording_video (lab_video_env\<lparr>ve_camera_opens := False\<rparr>) ''S1'' ''out''
        None True (Some ''out/S1_video_t.mp4'') (video_init lab_video_config))))) = Success"
  by (simp add: lab_video_begin lab_video_begin_again lab_audio_begin lab_audio_begin_again
      lab_video_arm_no_camera lab_video_begin_unarmed)

section \<open>File names of a joint start\<close>

















section \<open>Failing starts\<close>

lemma lab_audio_arm_bad_index:
  "start_recording_audio lab_audio_env ''S1'' ''out'' (Some 7) True None
     (audio_init lab_audio_config) =
   (Raised, (audio_init lab_audio_config)\<lparr>audio_p := Some Live\<rparr>, [PaInit])"
  by (simp add: start_recording_audio_def get_device_info_by_index_def lab_audio_env_def
      audio_init_def Let_def)

lemma lab_audio_begin_raises:
  "start_pre_initialized_audio (lab_audio_env\<lparr>ae_start_stream_raises := True\<rparr>) ''S1''
     lab_audio_armed = (Raised, lab_audio_armed, [])"
  by (simp add: start_pre_initialized_audio_def lab_audio_armed_eq)

text \<open>
  C6, at three failing calls. \<open>start_recording\<close> of the audio recorder with a device
  index that is not in the device table: \<open>get_device_info_by_index\<close> raises outside
  the guarded section, the exception escapes, and the PyAudio instance created for the
  call stays live, with no \<open>terminate()\<close>. \<open>start_pre_initialized\<close> of the armed audio
  recorder when \<open>start_stream()\<close> raises: the exception escapes and the stream opened
  by the arm stays open on a live instance. \<open>start_recording\<close> of the video recorder
  when the camera does not open: it returns \<open>False\<close> and leaves the unopened capture
  object in \<open>video_capture\<close>, so that \<open>start_pre_initialized\<close> on this recorder
  returns \<open>True\<close> and sets it recording.
\<close>

theorem failed_start_keeps_handles:
  "start_recording_audio lab_audio_env ''S1'' ''out'' (Some 7) True None
     (audio_init lab_audio_config) =
     (Raised, (audio_init lab_audio_config)\<lparr>audio_p := Some Live\<rparr>, [PaInit]) \<and>
   start_pre_initialized_audio (lab_audio_env\<lparr>ae_start_stream_raises := True\<rparr>) ''S1''
     lab_audio_armed = (Raised, lab_audio_armed, []) \<and>
   audio_stream lab_audio_armed = Some Stopped \<and> audio_p lab_audio_armed = Some Live \<and>
   start_recording_video (lab_video_env\<lparr>ve_camera_opens := False\<rparr>) ''S1'' ''out'' None True
     (Some ''out/S1_video_t.mp4'') (video_init lab_video_config) =
     (Failure DeviceOpenError,
      (video_init lab_video_config)\<lparr>video_capture := Some (Capture False)\<rparr>, [CapOpen 0]) \<and>
   start_pre_initialized_video lab_video_env ''S1''
     ((video_init lab_video_config)\<lparr>video_capture := Some (Capture False)\<rparr>) =
     (Success,
      (video_init lab_video_config)\<lparr>video_capture := Some (Capture False),
         v_recording := True, thread_active := True, video_thread := Some Thread\<rparr>,
      [ThreadStart RecordingThread,
       Send (VideoStart ''S1'' None (strftime_coarse lab_time) (isoformat lab_time) None)])"
proof -
  have armed: "audio_stream lab_audio_armed = Some Stopped" "audio_p lab_audio_armed = Some Live"
    by (simp_all add: lab_audio_armed_eq)
  have go: "start_pre_initialized_video lab_video_env ''S1''
     ((video_init lab_video_config)\<lparr>video_capture := Some (Capture False)\<rparr>) =
     (Success,
      (video_init lab_video_config)\<lparr>video_capture := Some (Capture False),
         v_recording := True, thread_active := True, video_thread := Some Thread\<rparr>,
      [ThreadStart RecordingThread,
       Send (VideoStart ''S1'' None (strftime_coarse lab_time) (isoformat lab_time) None)])"
    by (simp add: start_pre_initialized_video_def video_init_def lab_video_env_def)
  from lab_audio_arm_bad_index lab_audio_begin_raises armed lab_video_arm_no_camera go
  show ?thesis by (intro conjI)
qed

section \<open>start\_recording on a recording audio recorder, at the laboratory\<close>

theorem start_recording_audio_already_recording_witness:
  "a_recording lab_audio_recording \<and> audio_stream lab_audio_recording = Some Active \<and>
   start_recording_audio lab_audio_env ''S1'' ''out'' None True None lab_audio_recording =
     (Failure AlreadyRecording, lab_audio_recording, []) \<and>
   audio_frames (audio_callback [1, 2, 3] lab_audio_recording) = [[1, 2, 3]] \<and>
   start_recording_audio lab_audio_env ''S1'' ''out'' (Some 0) False (Some ''out/other.wav'')
     (audio_callback [1, 2, 3] lab_audio_recording) =
     (Failure AlreadyRecording, audio_callback [1, 2, 3] lab_audio_recording, [])"
proof -
  have rec: "a_recording lab_audio_recording" "audio_stream lab_audio_recording = Some Active"
    by (simp_all add: lab_audio_recording_eq)
  have fed: "a_recording (audio_callback [1, 2, 3] lab_audio_recording)"
    "audio_frames (audio_callback [1, 2, 3] lab_audio_recording) = [[1, 2, 3]]"
    by (simp_all add: audio_callback_def lab_audio_recording_eq)
  from rec fed
    start_recording_audio_already_recording [OF rec(1), of lab_audio_env "''S1''" "''out''"
      None True None]
    start_recording_audio_already_recording [OF fed(1), of lab_audio_env "''S1''" "''out''"
      "Some 0" False "Some ''out/other.wav''"]
  show ?thesis by (intro conjI)
qed

end
